theory Spec2Isabelle
  imports Main "HOL-Library.AList"
begin

section \<open>JavaScript values\<close>

text \<open>
  The objects that travel through \<open>EntityRepository\<close> (filters, projections, update
  documents, stored documents) are plain JavaScript objects. An object is the list of its own
  properties in enumeration order. A number is a double of JavaScript that holds an integer,
  given by that integer: \<open>JNum n\<close> stands for a value of JavaScript when a double can hold
  \<open>n\<close> (every \<open>n\<close> of magnitude up to \<open>2^53\<close>, beyond it only multiples of a power of
  two). \<open>JNaN\<close> is the one non-number the code can produce (\<open>undefined + 1\<close>).
\<close>

datatype jsval =
    JUndefined
  | JNull
  | JBool bool
  | JNum int
  | JNaN
  | JStr string
  | JObj "(string \<times> jsval) list"

type_synonym jsobj = "(string \<times> jsval) list"

text \<open>Truthiness, as \<open>&&\<close> and \<open>if\<close> test it.\<close>

fun truthy :: "jsval \<Rightarrow> bool" where
  "truthy JUndefined = False"
| "truthy JNull = False"
| "truthy (JBool b) = b"
| "truthy (JNum n) = (n \<noteq> 0)"
| "truthy JNaN = False"
| "truthy (JStr s) = (s \<noteq> [])"
| "truthy (JObj ps) = True"

text \<open>
  \<open>a !== b\<close>. Primitives are compared by type and value, \<open>NaN\<close> differs from itself.
  Objects are compared by identity: the two operands of the one \<open>!==\<close> in the source are a
  property of the stored document and a property of the caller's update, which are never the
  same object.
\<close>

fun strict_neq :: "jsval \<Rightarrow> jsval \<Rightarrow> bool" where
  "strict_neq JUndefined JUndefined = False"
| "strict_neq JNull JNull = False"
| "strict_neq (JBool a) (JBool b) = (a \<noteq> b)"
| "strict_neq (JNum a) (JNum b) = (a \<noteq> b)"
| "strict_neq (JStr a) (JStr b) = (a \<noteq> b)"
| "strict_neq a b = True"

text \<open>\<open>o.k\<close>: the value of property \<open>k\<close>, \<open>undefined\<close> when the object has none.\<close>

definition get_prop :: "jsobj \<Rightarrow> string \<Rightarrow> jsval" where
  "get_prop obj k = (case map_of obj k of None \<Rightarrow> JUndefined | Some v \<Rightarrow> v)"

text \<open>
  \<open>{ ...o, k: v }\<close>: a property the object already has keeps its place and takes the new
  value, a new property goes last. This is \<^const>\<open>AList.update\<close>.
\<close>

definition spread_with :: "jsobj \<Rightarrow> string \<Rightarrow> jsval \<Rightarrow> jsobj" where
  "spread_with obj k v = AList.update k v obj"

text \<open>
  \<open>n + 1\<close> on a double that holds the integer \<open>n\<close>. From \<open>-2^53\<close> up to \<open>2^53 - 1\<close> the
  sum is exact. From \<open>2^53\<close> on, and below \<open>-2^53\<close>, the doubles are two apart up to
  magnitude \<open>2^54\<close>: \<open>n + 1\<close> lies halfway between \<open>n\<close> and \<open>n + 2\<close> and is rounded to the
  one whose significand \<open>n div 2\<close> or \<open>n div 2 + 1\<close> is even. From magnitude \<open>2^54\<close> on
  the doubles are at least four apart and the sum is rounded back to \<open>n\<close>.
  (\<open>2^53 = 9007199254740992\<close>, \<open>2^54 = 18014398509481984\<close>.)
\<close>

definition double_plus_one :: "int \<Rightarrow> int" where
  "double_plus_one n =
     (if - 9007199254740992 \<le> n \<and> n < 9007199254740992 then n + 1
      else if - 18014398509481984 < n \<and> n < 18014398509481984 then
        (if (n div 2) mod 2 = 0 then n else n + 2)
      else n)"

text \<open>\<open>v + 1\<close> for each kind of value \<open>v\<close>.\<close>

fun plus_one :: "jsval \<Rightarrow> jsval" where
  "plus_one (JNum n) = JNum (double_plus_one n)"
| "plus_one JUndefined = JNaN"
| "plus_one JNaN = JNaN"
| "plus_one JNull = JNum 1"
| "plus_one (JBool b) = JNum (if b then 2 else 1)"
| "plus_one (JStr s) = JStr (s @ ''1'')"
| "plus_one (JObj ps) = JStr ''[object Object]1''"

text \<open>\<open>a || 0\<close> on an optional number.\<close>

fun or_zero :: "int option \<Rightarrow> int" where
  "or_zero None = 0"
| "or_zero (Some n) = (if n \<noteq> 0 then n else 0)"


section \<open>Exceptions\<close>

text \<open>The members of \<open>HttpStatus\<close> that the repository uses.\<close>

datatype HttpStatus = BAD_REQUEST | NOT_FOUND | CONFLICT | INTERNAL_SERVER_ERROR

fun status_code :: "HttpStatus \<Rightarrow> nat" where
  "status_code BAD_REQUEST = 400"
| "status_code NOT_FOUND = 404"
| "status_code CONFLICT = 409"
| "status_code INTERNAL_SERVER_ERROR = 500"

text \<open>
  An error object of the driver, by the four properties \<open>handleDatabaseError\<close> reads:
  \<open>name\<close>, \<open>message\<close>, \<open>code\<close> (absent, a number, or a string such as \<open>ECONNREFUSED\<close>) and
  \<open>keyValue\<close> (absent, or an object, given by the renderings of its values in the order of
  \<open>Object.values\<close>, which is all the template literal of case 11000 needs).
\<close>

datatype code_val = NoCode | NumCode int | StrCode string

datatype driver_error =
  DriverError (name: string) (message: string) (code: code_val) (keyValue: "string list option")

text \<open>
  What a method can throw: an \<open>HttpException\<close> (message, status), an error of the driver
  as the driver threw it, or a \<open>TypeError\<close> of the language.
\<close>

datatype thrown =
    HttpException string HttpStatus
  | Raw driver_error
  | TypeError string

fun thrown_name :: "thrown \<Rightarrow> string" where
  "thrown_name (HttpException m st) = ''HttpException''"
| "thrown_name (Raw e) = name e"
| "thrown_name (TypeError m) = ''TypeError''"

fun thrown_message :: "thrown \<Rightarrow> string" where
  "thrown_message (HttpException m st) = m"
| "thrown_message (Raw e) = message e"
| "thrown_message (TypeError m) = m"

text \<open>An \<open>HttpException\<close> and a \<open>TypeError\<close> have no \<open>code\<close> and no \<open>keyValue\<close>.\<close>

fun thrown_code :: "thrown \<Rightarrow> code_val" where
  "thrown_code (Raw e) = code e"
| "thrown_code t = NoCode"

fun thrown_keyValue :: "thrown \<Rightarrow> string list option" where
  "thrown_keyValue (Raw e) = keyValue e"
| "thrown_keyValue t = None"

fun is_HttpException :: "thrown \<Rightarrow> bool" where
  "is_HttpException (HttpException m st) = True"
| "is_HttpException t = False"

text \<open>
  The parameter of \<open>handleDatabaseError\<close> is typed \<open>any\<close>: besides an error object it can
  be \<open>undefined\<close> or \<open>null\<close>.
\<close>

datatype caught = CaughtUndefined | CaughtNull | CaughtObject thrown


section \<open>The error table of \<open>handleDatabaseError\<close>\<close>

text \<open>\<open>`${Object.values(kv)[0]}`\<close>: the first value, \<open>undefined\<close> for an empty object.\<close>

fun first_value :: "string list \<Rightarrow> string" where
  "first_value [] = ''undefined''"
| "first_value (v # vs) = v"

text \<open>
  The \<open>switch (error.code)\<close> and the \<open>throw\<close> after it: the exception that leaves
  \<open>handleDatabaseError\<close>. The cases compare with \<open>===\<close>, so only a numeric code can match.
  In case 11000 \<open>Object.values\<close> of an absent \<open>keyValue\<close> throws a \<open>TypeError\<close>.
\<close>

definition translated :: "thrown \<Rightarrow> thrown" where
  "translated error =
     (case thrown_code error of
        NumCode c \<Rightarrow>
          if c = 11000 then
            (case thrown_keyValue error of
               None \<Rightarrow> TypeError ''Cannot convert undefined or null to object''
             | Some kv \<Rightarrow> HttpException (first_value kv @ '' already exists'') BAD_REQUEST)
          else if c = 11001 then HttpException ''Duplicate key error'' BAD_REQUEST
          else if c = 12000 then HttpException ''Invalid index specification'' BAD_REQUEST
          else if c = 12010 then
            HttpException ''Cannot build index on a non-existing field'' BAD_REQUEST
          else if c = 12102 then HttpException ''Index key too long'' BAD_REQUEST
          else if c = 12134 then HttpException ''Index not found'' BAD_REQUEST
          else HttpException ''Database operation failed'' INTERNAL_SERVER_ERROR
      | _ \<Rightarrow> HttpException ''Database operation failed'' INTERNAL_SERVER_ERROR)"

text \<open>
  The line written when \<open>errLogger\<close> is set:
  \<open>`Database Error: ${error?.name} -  ${error.message || error}`\<close>.
  With an empty message the error itself is rendered, which for an error object with an empty
  message is its name.
\<close>

definition log_line :: "thrown \<Rightarrow> string" where
  "log_line error =
     ''Database Error: '' @ thrown_name error @ '' -  '' @
       (if thrown_message error \<noteq> [] then thrown_message error else thrown_name error)"


section \<open>The driver\<close>

text \<open>
  \<open>this.options.entityModel\<close>, the sessions it starts and \<open>this.logger\<close> are objects of
  other libraries. A call of one of their operations takes the state of the outside world,
  answers with a value or throws an error, and leaves a new state. The repository is
  modelled over any such world: one field for each operation the source calls.
  A query chain (\<open>find(..).skip(..).limit(..).exec()\<close>) is one operation, run by its
  \<open>exec\<close> or \<open>await\<close>. \<open>endSession\<close> is called without \<open>await\<close> and the logger returns
  nothing: neither can throw into the method.
\<close>

type_synonym session = nat

type_synonym ('a, 's) driver_call = "'s \<Rightarrow> (driver_error + 'a) \<times> 's"

record 's world =
  m_save :: "jsval \<Rightarrow> jsobj option \<Rightarrow> (jsobj, 's) driver_call"
  m_create :: "jsval list \<Rightarrow> (jsobj list, 's) driver_call"
  m_find :: "jsobj \<Rightarrow> jsobj option \<Rightarrow> int option \<Rightarrow> int option \<Rightarrow> (jsobj list, 's) driver_call"
  m_findById :: "string \<Rightarrow> jsobj option \<Rightarrow> (jsobj option, 's) driver_call"
  m_findOne :: "jsobj \<Rightarrow> jsobj option \<Rightarrow> (jsobj option, 's) driver_call"
  m_countDocuments :: "jsobj \<Rightarrow> (int, 's) driver_call"
  m_distinct :: "string \<Rightarrow> jsobj option \<Rightarrow> (jsval list, 's) driver_call"
  m_updateOne :: "jsobj \<Rightarrow> jsobj \<Rightarrow> (int option, 's) driver_call"
  m_updateMany :: "jsobj \<Rightarrow> jsobj \<Rightarrow> (int option, 's) driver_call"
  m_findOneAndUpdate :: "jsobj \<Rightarrow> jsobj \<Rightarrow> bool \<Rightarrow> (jsobj option, 's) driver_call"
  m_deleteOne :: "jsobj \<Rightarrow> (int, 's) driver_call"
  m_deleteMany :: "jsobj \<Rightarrow> (int, 's) driver_call"
  m_aggregate :: "jsval list \<Rightarrow> (jsval list, 's) driver_call"
  m_readyState :: "'s \<Rightarrow> int option"
  m_startSession :: "(session, 's) driver_call"
  m_findById_session :: "string \<Rightarrow> session \<Rightarrow> (jsobj option, 's) driver_call"
  m_findByIdAndUpdate_session :: "string \<Rightarrow> jsobj \<Rightarrow> session \<Rightarrow> (jsobj option, 's) driver_call"
  s_startTransaction :: "session \<Rightarrow> (unit, 's) driver_call"
  s_commitTransaction :: "session \<Rightarrow> (unit, 's) driver_call"
  s_abortTransaction :: "session \<Rightarrow> (unit, 's) driver_call"
  s_endSession :: "session \<Rightarrow> 's \<Rightarrow> 's"
  logger_error :: "string \<Rightarrow> 's \<Rightarrow> 's"

text \<open>
  A method of the repository: from the state of the world to what it throws (\<open>Inl\<close>) or
  returns (\<open>Inr\<close>), and the state it leaves.
\<close>

type_synonym ('a, 's) io = "'s \<Rightarrow> (thrown + 'a) \<times> 's"

definition io_return :: "'a \<Rightarrow> ('a, 's) io" where
  "io_return v = (\<lambda>s. (Inr v, s))"

definition io_throw :: "thrown \<Rightarrow> ('a, 's) io" where
  "io_throw t = (\<lambda>s. (Inl t, s))"

text \<open>Sequencing: a throw skips the rest.\<close>

definition io_bind :: "('a, 's) io \<Rightarrow> ('a \<Rightarrow> ('b, 's) io) \<Rightarrow> ('b, 's) io" where
  "io_bind m f = (\<lambda>s. case m s of (Inl t, s') \<Rightarrow> (Inl t, s') | (Inr v, s') \<Rightarrow> f v s')"

text \<open>\<open>try { m } catch (err) { h(err) }\<close>.\<close>

definition io_try :: "('a, 's) io \<Rightarrow> (thrown \<Rightarrow> ('a, 's) io) \<Rightarrow> ('a, 's) io" where
  "io_try m h = (\<lambda>s. case m s of (Inl t, s') \<Rightarrow> h t s' | (Inr v, s') \<Rightarrow> (Inr v, s'))"

text \<open>A driver call that is awaited: its error is thrown as it is.\<close>

definition await :: "('a, 's) driver_call \<Rightarrow> ('a, 's) io" where
  "await c = (\<lambda>s. case c s of (Inl e, s') \<Rightarrow> (Inl (Raw e), s') | (Inr v, s') \<Rightarrow> (Inr v, s'))"

text \<open>A call that cannot throw into the method.\<close>

definition effect :: "('s \<Rightarrow> 's) \<Rightarrow> (unit, 's) io" where
  "effect f = (\<lambda>s. (Inr (), f s))"


section \<open>\<open>handleDatabaseError\<close>\<close>

text \<open>
  The function runs two statements in order. First, when \<open>errLogger\<close> is set, the log
  statement: its template reads \<open>error?.name\<close>, which is safe on any value, and then
  \<open>error.message\<close>, which throws a \<open>TypeError\<close> on \<open>undefined\<close> and \<open>null\<close> before
  anything is logged. Then the \<open>switch\<close>: it reads \<open>error.code\<close>, which throws a
  \<open>TypeError\<close> on \<open>undefined\<close> and \<open>null\<close>, and otherwise leads to the \<open>throw\<close> of the
  translated exception.
\<close>

definition log_statement :: "'s world \<Rightarrow> caught \<Rightarrow> (unit, 's) io" where
  "log_statement W error =
     (case error of
        CaughtUndefined \<Rightarrow>
          io_throw (TypeError ''Cannot read properties of undefined (reading 'message')'')
      | CaughtNull \<Rightarrow> io_throw (TypeError ''Cannot read properties of null (reading 'message')'')
      | CaughtObject t \<Rightarrow> effect (logger_error W (log_line t)))"

definition switch_and_throw :: "caught \<Rightarrow> ('a, 's) io" where
  "switch_and_throw error =
     (case error of
        CaughtUndefined \<Rightarrow>
          io_throw (TypeError ''Cannot read properties of undefined (reading 'code')'')
      | CaughtNull \<Rightarrow> io_throw (TypeError ''Cannot read properties of null (reading 'code')'')
      | CaughtObject t \<Rightarrow> io_throw (translated t))"

definition handleDatabaseError :: "'s world \<Rightarrow> bool \<Rightarrow> caught \<Rightarrow> ('a, 's) io" where
  "handleDatabaseError W errLogger error =
     io_bind (if errLogger then log_statement W error else io_return ())
       (\<lambda>_. switch_and_throw error)"


section \<open>The methods of \<open>EntityRepository\<close>\<close>

text \<open>
  Each method takes the world \<open>W\<close> and, where it can reach \<open>handleDatabaseError\<close>, the
  option \<open>errLogger\<close>, then the arguments of the source in their order (the parameter
  \<open>id\<close> is \<open>docId\<close> here). What a \<open>catch\<close> block of these methods catches is what the
  \<open>try\<close> block threw: an exception the method made, or an error object of the driver.
\<close>

definition create :: "'s world \<Rightarrow> bool \<Rightarrow> jsval \<Rightarrow> jsobj option \<Rightarrow> (jsobj, 's) io" where
  "create W errLogger createEntity options =
     io_try (await (m_save W createEntity options))
       (\<lambda>err. handleDatabaseError W errLogger (CaughtObject err))"

definition createMany :: "'s world \<Rightarrow> bool \<Rightarrow> jsval list \<Rightarrow> (jsobj list, 's) io" where
  "createMany W errLogger createEntities =
     io_try (await (m_create W createEntities))
       (\<lambda>err. handleDatabaseError W errLogger (CaughtObject err))"

text \<open>\<open>find\<close> and \<open>findOne\<close> have no \<open>try\<close>.\<close>

definition find_r ::
  "'s world \<Rightarrow> jsobj \<Rightarrow> jsobj option \<Rightarrow> int option \<Rightarrow> int option \<Rightarrow> (jsobj list, 's) io" where
  "find_r W entityFilterQuery projection skip limit =
     await (m_find W entityFilterQuery projection (Some (or_zero skip)) (Some (or_zero limit)))"

definition findById :: "'s world \<Rightarrow> bool \<Rightarrow> string \<Rightarrow> jsobj option \<Rightarrow> (jsobj, 's) io" where
  "findById W errLogger docId projection =
     io_try
       (io_bind (await (m_findById W docId projection)) (\<lambda>data.
          case data of
            None \<Rightarrow> io_throw (HttpException (''No data found with ID '' @ docId) NOT_FOUND)
          | Some d \<Rightarrow> io_return d))
       (\<lambda>err. handleDatabaseError W errLogger (CaughtObject err))"

definition findOne :: "'s world \<Rightarrow> jsobj \<Rightarrow> jsobj option \<Rightarrow> (jsobj option, 's) io" where
  "findOne W entityFilterQuery projection = await (m_findOne W entityFilterQuery projection)"

text \<open>
  \<open>fullTextSearch\<close> returns the promise of \<open>exec()\<close> from inside its \<open>try\<close> without
  \<open>await\<close>: the \<open>try\<close> block has ended when the query fails, and the failure goes to the
  caller without passing through the \<open>catch\<close>. Building the query object throws nothing.
\<close>

definition fullTextSearch :: "'s world \<Rightarrow> bool \<Rightarrow> string \<Rightarrow> string \<Rightarrow> (jsobj list, 's) io" where
  "fullTextSearch W errLogger searchText searchField =
     (let searchQuery = [(searchField, JObj [(''$regex'', JStr searchText), (''$options'', JStr ''i'')])]
      in await (m_find W searchQuery None None None))"

definition count_r :: "'s world \<Rightarrow> bool \<Rightarrow> jsobj \<Rightarrow> (int, 's) io" where
  "count_r W errLogger entityFilterQuery =
     io_try (await (m_countDocuments W entityFilterQuery))
       (\<lambda>err. handleDatabaseError W errLogger (CaughtObject err))"

definition distinctValues :: "'s world \<Rightarrow> bool \<Rightarrow> string \<Rightarrow> jsobj option \<Rightarrow> (jsval list, 's) io" where
  "distinctValues W errLogger field entityFilterQuery =
     io_try (await (m_distinct W field entityFilterQuery))
       (\<lambda>err. handleDatabaseError W errLogger (CaughtObject err))"

definition updateOne :: "'s world \<Rightarrow> bool \<Rightarrow> jsobj \<Rightarrow> jsobj \<Rightarrow> (int, 's) io" where
  "updateOne W errLogger filterQuery update =
     io_try
       (io_bind (await (m_updateOne W filterQuery update)) (\<lambda>modifiedCount.
          io_return (or_zero modifiedCount)))
       (\<lambda>err. handleDatabaseError W errLogger (CaughtObject err))"

definition updateMany :: "'s world \<Rightarrow> bool \<Rightarrow> jsobj \<Rightarrow> jsobj \<Rightarrow> (int, 's) io" where
  "updateMany W errLogger filterQuery update =
     io_try
       (io_bind (await (m_updateMany W filterQuery update)) (\<lambda>modifiedCount.
          io_return (or_zero modifiedCount)))
       (\<lambda>err. handleDatabaseError W errLogger (CaughtObject err))"

text \<open>The third argument of \<open>findOneAndUpdate\<close>, by default
  \<open>{ versionKey: "__v", incVersion: false, upsert: false }\<close>.\<close>

record update_options =
  versionKey :: string
  incVersion :: bool
  upsert :: bool

definition default_options :: update_options where
  "default_options = \<lparr> versionKey = ''__v'', incVersion = False, upsert = False \<rparr>"

definition findOneAndUpdate ::
  "'s world \<Rightarrow> bool \<Rightarrow> jsobj \<Rightarrow> jsobj \<Rightarrow> update_options \<Rightarrow> (jsobj option, 's) io" where
  "findOneAndUpdate W errLogger filterQuery updatedObject options =
     io_try
       (await (m_findOneAndUpdate W filterQuery
          (if incVersion options
           then spread_with updatedObject ''$inc'' (JObj [(versionKey options, JNum 1)])
           else updatedObject)
          (upsert options)))
       (\<lambda>err. handleDatabaseError W errLogger (CaughtObject err))"

text \<open>
  \<open>updateById\<close>: the body of its \<open>try\<close> block, its \<open>catch\<close> block, then the method.
  The session is started and the transaction begun before the \<open>try\<close>.
\<close>

definition updateById_try ::
  "'s world \<Rightarrow> string \<Rightarrow> jsobj \<Rightarrow> session \<Rightarrow> (jsobj option, 's) io" where
  "updateById_try W docId update session =
     io_bind (await (m_findById_session W docId session)) (\<lambda>existingDoc.
       case existingDoc of
         None \<Rightarrow> io_throw (HttpException (''No data found with ID '' @ docId) NOT_FOUND)
       | Some doc \<Rightarrow>
           if truthy (get_prop update ''__v'')
              \<and> strict_neq (get_prop doc ''__v'') (get_prop update ''__v'')
           then io_throw (HttpException ''Concurrency conflict'' CONFLICT)
           else
             io_bind (await (m_findByIdAndUpdate_session W docId
                        (spread_with update ''__v'' (plus_one (get_prop doc ''__v''))) session))
               (\<lambda>updatedDoc.
             io_bind (await (s_commitTransaction W session)) (\<lambda>_.
             io_bind (effect (s_endSession W session)) (\<lambda>_.
             io_return updatedDoc))))"

definition updateById_catch :: "'s world \<Rightarrow> bool \<Rightarrow> session \<Rightarrow> thrown \<Rightarrow> ('a, 's) io" where
  "updateById_catch W errLogger session error =
     io_bind (await (s_abortTransaction W session)) (\<lambda>_.
     io_bind (effect (s_endSession W session)) (\<lambda>_.
     handleDatabaseError W errLogger (CaughtObject error)))"

definition updateById :: "'s world \<Rightarrow> bool \<Rightarrow> string \<Rightarrow> jsobj \<Rightarrow> (jsobj option, 's) io" where
  "updateById W errLogger docId update =
     io_bind (await (m_startSession W)) (\<lambda>session.
     io_bind (await (s_startTransaction W session)) (\<lambda>_.
     io_try (updateById_try W docId update session) (updateById_catch W errLogger session)))"

definition deleteOne :: "'s world \<Rightarrow> bool \<Rightarrow> jsobj \<Rightarrow> (bool, 's) io" where
  "deleteOne W errLogger filterQuery =
     io_try
       (io_bind (await (m_deleteOne W filterQuery)) (\<lambda>deletedCount.
          io_return (deletedCount \<ge> 1)))
       (\<lambda>err. handleDatabaseError W errLogger (CaughtObject err))"

definition deleteMany :: "'s world \<Rightarrow> bool \<Rightarrow> jsobj \<Rightarrow> (bool, 's) io" where
  "deleteMany W errLogger filterQuery =
     io_try
       (io_bind (await (m_deleteMany W filterQuery)) (\<lambda>deletedCount.
          io_return (deletedCount \<ge> 1)))
       (\<lambda>err. handleDatabaseError W errLogger (CaughtObject err))"

definition startTransaction :: "'s world \<Rightarrow> (session, 's) io" where
  "startTransaction W =
     io_bind (await (m_startSession W)) (\<lambda>session.
     io_bind (await (s_startTransaction W session)) (\<lambda>_.
     io_return session))"

definition commitTransaction :: "'s world \<Rightarrow> bool \<Rightarrow> session \<Rightarrow> (unit, 's) io" where
  "commitTransaction W errLogger session =
     io_try (await (s_commitTransaction W session)) (\<lambda>error.
       io_bind (await (s_abortTransaction W session)) (\<lambda>_.
       io_bind (effect (s_endSession W session)) (\<lambda>_.
       handleDatabaseError W errLogger (CaughtObject error))))"

definition abortTransaction :: "'s world \<Rightarrow> bool \<Rightarrow> session \<Rightarrow> (unit, 's) io" where
  "abortTransaction W errLogger session =
     io_try (await (s_abortTransaction W session)) (\<lambda>error.
       io_bind (effect (s_endSession W session)) (\<lambda>_.
       handleDatabaseError W errLogger (CaughtObject error)))"

definition endTransaction :: "'s world \<Rightarrow> session \<Rightarrow> (unit, 's) io" where
  "endTransaction W session = effect (s_endSession W session)"

definition aggregate :: "'s world \<Rightarrow> bool \<Rightarrow> jsval list \<Rightarrow> (jsval list, 's) io" where
  "aggregate W errLogger aggregatePipeline =
     io_try (await (m_aggregate W aggregatePipeline))
       (\<lambda>err. handleDatabaseError W errLogger (CaughtObject err))"

text \<open>
  \<open>isDatabaseConnected\<close> reads \<open>entityModel.db.readyState\<close>; when the read throws
  (\<open>None\<close>) its \<open>catch\<close> returns \<open>false\<close>.
\<close>

definition isDatabaseConnected :: "'s world \<Rightarrow> (bool, 's) io" where
  "isDatabaseConnected W =
     (\<lambda>s. (Inr (case m_readyState W s of None \<Rightarrow> False | Some r \<Rightarrow> r = 1), s))"


section \<open>Observing the calls\<close>

text \<open>
  To state what a method asks of the driver, a world is wrapped in a recorder: every
  operation is passed on to the world unchanged, and the call, with its arguments and whether
  it returned, is appended to a list kept beside the world's state.
\<close>

datatype event =
    Save jsval "jsobj option"
  | Create "jsval list"
  | Find jsobj "jsobj option" "int option" "int option"
  | FindById string "jsobj option"
  | FindOne jsobj "jsobj option"
  | CountDocuments jsobj
  | Distinct string "jsobj option"
  | UpdateOne jsobj jsobj
  | UpdateMany jsobj jsobj
  | FindOneAndUpdate jsobj jsobj bool
  | DeleteOne jsobj
  | DeleteMany jsobj
  | Aggregate "jsval list"
  | StartSession
  | FindByIdIn string session
  | FindByIdAndUpdateIn string jsobj session
  | StartTransaction session
  | CommitTransaction session
  | AbortTransaction session
  | EndSession session
  | LogError string

type_synonym trace = "(event \<times> bool) list"

fun returned :: "'e + 'a \<Rightarrow> bool" where
  "returned (Inl e) = False"
| "returned (Inr v) = True"

definition recorded :: "event \<Rightarrow> ('a, 's) driver_call \<Rightarrow> ('a, 's \<times> trace) driver_call" where
  "recorded ev c = (\<lambda>(s, tr). case c s of (r, s') \<Rightarrow> (r, (s', tr @ [(ev, returned r)])))"

definition recorded_effect :: "event \<Rightarrow> ('s \<Rightarrow> 's) \<Rightarrow> 's \<times> trace \<Rightarrow> 's \<times> trace" where
  "recorded_effect ev f = (\<lambda>(s, tr). (f s, tr @ [(ev, True)]))"

definition spy :: "'s world \<Rightarrow> ('s \<times> trace) world" where
  "spy W = \<lparr>
     m_save = (\<lambda>x opts. recorded (Save x opts) (m_save W x opts)),
     m_create = (\<lambda>xs. recorded (Create xs) (m_create W xs)),
     m_find = (\<lambda>q p sk li. recorded (Find q p sk li) (m_find W q p sk li)),
     m_findById = (\<lambda>i p. recorded (FindById i p) (m_findById W i p)),
     m_findOne = (\<lambda>q p. recorded (FindOne q p) (m_findOne W q p)),
     m_countDocuments = (\<lambda>q. recorded (CountDocuments q) (m_countDocuments W q)),
     m_distinct = (\<lambda>f q. recorded (Distinct f q) (m_distinct W f q)),
     m_updateOne = (\<lambda>q u. recorded (UpdateOne q u) (m_updateOne W q u)),
     m_updateMany = (\<lambda>q u. recorded (UpdateMany q u) (m_updateMany W q u)),
     m_findOneAndUpdate = (\<lambda>q u b. recorded (FindOneAndUpdate q u b) (m_findOneAndUpdate W q u b)),
     m_deleteOne = (\<lambda>q. recorded (DeleteOne q) (m_deleteOne W q)),
     m_deleteMany = (\<lambda>q. recorded (DeleteMany q) (m_deleteMany W q)),
     m_aggregate = (\<lambda>p. recorded (Aggregate p) (m_aggregate W p)),
     m_readyState = (\<lambda>(s, tr). m_readyState W s),
     m_startSession = recorded StartSession (m_startSession W),
     m_findById_session = (\<lambda>i ss. recorded (FindByIdIn i ss) (m_findById_session W i ss)),
     m_findByIdAndUpdate_session =
       (\<lambda>i u ss. recorded (FindByIdAndUpdateIn i u ss) (m_findByIdAndUpdate_session W i u ss)),
     s_startTransaction = (\<lambda>ss. recorded (StartTransaction ss) (s_startTransaction W ss)),
     s_commitTransaction = (\<lambda>ss. recorded (CommitTransaction ss) (s_commitTransaction W ss)),
     s_abortTransaction = (\<lambda>ss. recorded (AbortTransaction ss) (s_abortTransaction W ss)),
     s_endSession = (\<lambda>ss. recorded_effect (EndSession ss) (s_endSession W ss)),
     logger_error = (\<lambda>l. recorded_effect (LogError l) (logger_error W l)) \<rparr>"

text \<open>What a method throws or returns, and the calls it made, from a given state.\<close>

definition outcome :: "('a, 's) io \<Rightarrow> 's \<Rightarrow> thrown + 'a" where
  "outcome m s = fst (m s)"

definition calls :: "('a, 's \<times> trace) io \<Rightarrow> 's \<Rightarrow> trace" where
  "calls m s = snd (snd (m (s, [])))"

text \<open>
  A world in which every operation returns: queries find nothing, counts are zero, the one
  session is number 0, \<open>findById\<close> in a session finds the document \<open>found\<close> and
  \<open>findByIdAndUpdate\<close> answers with the update it was given. Worlds that fail are made
  from it by replacing an operation.
\<close>

definition calm :: "jsobj option \<Rightarrow> unit world" where
  "calm found = \<lparr>
     m_save = (\<lambda>x opts s. (Inr [], s)),
     m_create = (\<lambda>xs s. (Inr [], s)),
     m_find = (\<lambda>q p sk li s. (Inr [], s)),
     m_findById = (\<lambda>i p s. (Inr found, s)),
     m_findOne = (\<lambda>q p s. (Inr None, s)),
     m_countDocuments = (\<lambda>q s. (Inr 0, s)),
     m_distinct = (\<lambda>f q s. (Inr [], s)),
     m_updateOne = (\<lambda>q u s. (Inr (Some 0), s)),
     m_updateMany = (\<lambda>q u s. (Inr (Some 0), s)),
     m_findOneAndUpdate = (\<lambda>q u b s. (Inr None, s)),
     m_deleteOne = (\<lambda>q s. (Inr 0, s)),
     m_deleteMany = (\<lambda>q s. (Inr 0, s)),
     m_aggregate = (\<lambda>p s. (Inr [], s)),
     m_readyState = (\<lambda>s. Some 1),
     m_startSession = (\<lambda>s. (Inr 0, s)),
     m_findById_session = (\<lambda>i ss s. (Inr found, s)),
     m_findByIdAndUpdate_session = (\<lambda>i u ss s. (Inr (Some u), s)),
     s_startTransaction = (\<lambda>ss s. (Inr (), s)),
     s_commitTransaction = (\<lambda>ss s. (Inr (), s)),
     s_abortTransaction = (\<lambda>ss s. (Inr (), s)),
     s_endSession = (\<lambda>ss s. s),
     logger_error = (\<lambda>l s. s) \<rparr>"

text \<open>Two errors of the driver used in the examples.\<close>

definition network_error :: driver_error where
  "network_error = DriverError ''MongoNetworkError'' ''connection closed'' NoCode None"

definition transaction_error :: driver_error where
  "transaction_error =
     DriverError ''MongoTransactionError''
       ''Cannot call abortTransaction after calling commitTransaction'' NoCode None"

definition duplicate_email :: driver_error where
  "duplicate_email =
     DriverError ''MongoServerError'' ''E11000 duplicate key error'' (NumCode 11000)
       (Some [''a@b.c''])"

definition duplicate_name :: driver_error where
  "duplicate_name =
     DriverError ''MongoServerError'' ''E11000 duplicate key error'' (NumCode 11000)
       (Some [''bob''])"

definition duplicate_bare :: driver_error where
  "duplicate_bare =
     DriverError ''MongoServerError'' ''E11000 duplicate key error'' (NumCode 11000) None"

text \<open>A world in which every call of the driver throws \<open>e\<close>.\<close>

definition broken :: "driver_error \<Rightarrow> unit world" where
  "broken e = \<lparr>
     m_save = (\<lambda>x opts s. (Inl e, s)),
     m_create = (\<lambda>xs s. (Inl e, s)),
     m_find = (\<lambda>q p sk li s. (Inl e, s)),
     m_findById = (\<lambda>i p s. (Inl e, s)),
     m_findOne = (\<lambda>q p s. (Inl e, s)),
     m_countDocuments = (\<lambda>q s. (Inl e, s)),
     m_distinct = (\<lambda>f q s. (Inl e, s)),
     m_updateOne = (\<lambda>q u s. (Inl e, s)),
     m_updateMany = (\<lambda>q u s. (Inl e, s)),
     m_findOneAndUpdate = (\<lambda>q u b s. (Inl e, s)),
     m_deleteOne = (\<lambda>q s. (Inl e, s)),
     m_deleteMany = (\<lambda>q s. (Inl e, s)),
     m_aggregate = (\<lambda>p s. (Inl e, s)),
     m_readyState = (\<lambda>s. None),
     m_startSession = (\<lambda>s. (Inl e, s)),
     m_findById_session = (\<lambda>i ss s. (Inl e, s)),
     m_findByIdAndUpdate_session = (\<lambda>i u ss s. (Inl e, s)),
     s_startTransaction = (\<lambda>ss s. (Inl e, s)),
     s_commitTransaction = (\<lambda>ss s. (Inl e, s)),
     s_abortTransaction = (\<lambda>ss s. (Inl e, s)),
     s_endSession = (\<lambda>ss s. s),
     logger_error = (\<lambda>l s. s) \<rparr>"

text \<open>The calm world with a query that fails, a read in the session that fails, and a commit
  that fails followed by an abort that fails.\<close>

definition find_fails :: "unit world" where
  "find_fails = (calm None)\<lparr> m_find := (\<lambda>q p sk li s. (Inl network_error, s)) \<rparr>"

definition read_fails :: "unit world" where
  "read_fails = (calm None)\<lparr> m_findById_session := (\<lambda>i ss s. (Inl network_error, s)) \<rparr>"

definition commit_and_abort_fail :: "jsobj option \<Rightarrow> unit world" where
  "commit_and_abort_fail found = (calm found)\<lparr>
     s_commitTransaction := (\<lambda>ss s. (Inl network_error, s)),
     s_abortTransaction := (\<lambda>ss s. (Inl transaction_error, s)) \<rparr>"

text \<open>
  The table as the specification words it: a fixed message for each listed code. Code 11000
  is not in it, see \<open>translated\<close>.
\<close>

definition fixed_message :: "int \<Rightarrow> string option" where
  "fixed_message = map_of
     [(11001, ''Duplicate key error''),
      (12000, ''Invalid index specification''),
      (12010, ''Cannot build index on a non-existing field''),
      (12102, ''Index key too long''),
      (12134, ''Index not found'')]"

text \<open>
  The operation an event is a call of, the events that are requests to the driver (all but
  the log line), and the calls a \<open>catch\<close> block makes to clean up.
\<close>

fun op_name :: "event \<Rightarrow> string" where
  "op_name (Save x opts) = ''save''"
| "op_name (Create xs) = ''create''"
| "op_name (Find q p sk li) = ''find''"
| "op_name (FindById i p) = ''findById''"
| "op_name (FindOne q p) = ''findOne''"
| "op_name (CountDocuments q) = ''countDocuments''"
| "op_name (Distinct f q) = ''distinct''"
| "op_name (UpdateOne q u) = ''updateOne''"
| "op_name (UpdateMany q u) = ''updateMany''"
| "op_name (FindOneAndUpdate q u b) = ''findOneAndUpdate''"
| "op_name (DeleteOne q) = ''deleteOne''"
| "op_name (DeleteMany q) = ''deleteMany''"
| "op_name (Aggregate p) = ''aggregate''"
| "op_name StartSession = ''startSession''"
| "op_name (FindByIdIn i ss) = ''findById''"
| "op_name (FindByIdAndUpdateIn i u ss) = ''findByIdAndUpdate''"
| "op_name (StartTransaction ss) = ''startTransaction''"
| "op_name (CommitTransaction ss) = ''commitTransaction''"
| "op_name (AbortTransaction ss) = ''abortTransaction''"
| "op_name (EndSession ss) = ''endSession''"
| "op_name (LogError l) = ''logger.error''"

fun is_log :: "event \<Rightarrow> bool" where
  "is_log (LogError l) = True"
| "is_log ev = False"

fun is_cleanup :: "event \<Rightarrow> bool" where
  "is_cleanup (AbortTransaction ss) = True"
| "is_cleanup (EndSession ss) = True"
| "is_cleanup ev = False"

definition requests :: "trace \<Rightarrow> event list" where
  "requests tr = filter (\<lambda>ev. \<not> is_log ev) (map fst tr)"

text \<open>No operation is called twice.\<close>

definition at_most_once :: "trace \<Rightarrow> bool" where
  "at_most_once tr = distinct (map op_name (map fst tr))"

text \<open>After a call that threw, the requests that follow.\<close>

fun after_failure :: "trace \<Rightarrow> event list" where
  "after_failure [] = []"
| "after_failure ((ev, ok) # rest) = (if ok then after_failure rest else requests rest)"


text \<open>A stored document at version 3, and three updates of its name: one that carries no
  version, one that carries the stale version 2, one that carries version 0.\<close>

definition stored_v3 :: jsobj where
  "stored_v3 = [(''_id'', JStr ''65f0''), (''name'', JStr ''Ann''), (''__v'', JNum 3)]"

definition plain_update :: jsobj where
  "plain_update = [(''name'', JStr ''Bob'')]"

definition stale_update :: jsobj where
  "stale_update = [(''name'', JStr ''Bob''), (''__v'', JNum 2)]"

definition zero_update :: jsobj where
  "zero_update = [(''name'', JStr ''Bob''), (''__v'', JNum 0)]"

text \<open>An update that increments a counter of the caller's, and the options that ask
  \<open>findOneAndUpdate\<close> to increment the version.\<close>

definition counting_update :: jsobj where
  "counting_update = [(''$set'', JObj [(''name'', JStr ''Bob'')]), (''$inc'', JObj [(''visits'', JNum 1)])]"

definition inc_options :: update_options where
  "inc_options = \<lparr> versionKey = ''__v'', incVersion = True, upsert = False \<rparr>"

text \<open>The calm world in which starting the session fails, in which the write fails, in which
  the commit fails, and in which the abort fails.\<close>

definition start_fails :: "unit world" where
  "start_fails = (calm None)\<lparr> m_startSession := (\<lambda>s. (Inl network_error, s)) \<rparr>"

definition write_fails :: "jsobj option \<Rightarrow> unit world" where
  "write_fails found =
     (calm found)\<lparr> m_findByIdAndUpdate_session := (\<lambda>i u ss s. (Inl network_error, s)) \<rparr>"

definition commit_fails :: "jsobj option \<Rightarrow> unit world" where
  "commit_fails found =
     (calm found)\<lparr> s_commitTransaction := (\<lambda>ss s. (Inl network_error, s)) \<rparr>"

definition abort_fails :: "jsobj option \<Rightarrow> unit world" where
  "abort_fails found =
     (calm found)\<lparr> s_abortTransaction := (\<lambda>ss s. (Inl network_error, s)) \<rparr>"

text \<open>A document stored at version \<open>2^53\<close>.\<close>

definition stored_2_53 :: jsobj where
  "stored_2_53 =
     [(''_id'', JStr ''65f0''), (''name'', JStr ''Ann''), (''__v'', JNum 9007199254740992)]"

text \<open>The calm world in which beginning the transaction fails.\<close>

definition begin_fails :: "unit world" where
  "begin_fails = (calm None)\<lparr> s_startTransaction := (\<lambda>ss s. (Inl transaction_error, s)) \<rparr>"

text \<open>
  The shapes a recorded run of \<open>updateById\<close> can take. What the \<open>catch\<close> block adds: a
  failed abort, or an abort and the end of the session, then the log line if there is one.
  What the \<open>try\<close> block adds when it returns (\<open>ok\<close>) and when it throws, the update written
  being the caller's with some \<open>__v\<close> spread over it.
\<close>

definition cleanup_tail :: "session \<Rightarrow> trace \<Rightarrow> bool" where
  "cleanup_tail ss cl =
     (cl = [(AbortTransaction ss, False)]
      \<or> cl = [(AbortTransaction ss, True), (EndSession ss, True)]
      \<or> (\<exists>l. cl = [(AbortTransaction ss, True), (EndSession ss, True), (LogError l, True)]))"

definition try_body :: "string \<Rightarrow> jsobj \<Rightarrow> session \<Rightarrow> bool \<Rightarrow> trace \<Rightarrow> bool" where
  "try_body docId update ss ok body =
     (if ok then
        (\<exists>v. body = [(FindByIdIn docId ss, True),
                      (FindByIdAndUpdateIn docId (spread_with update ''__v'' v) ss, True),
                      (CommitTransaction ss, True), (EndSession ss, True)])
      else
        (body = [(FindByIdIn docId ss, False)]
         \<or> body = [(FindByIdIn docId ss, True)]
         \<or> (\<exists>v. body = [(FindByIdIn docId ss, True),
                          (FindByIdAndUpdateIn docId (spread_with update ''__v'' v) ss, False)])
         \<or> (\<exists>v. body = [(FindByIdIn docId ss, True),
                          (FindByIdAndUpdateIn docId (spread_with update ''__v'' v) ss, True),
                          (CommitTransaction ss, False)])))"

definition updateById_shape :: "string \<Rightarrow> jsobj \<Rightarrow> trace \<Rightarrow> bool" where
  "updateById_shape docId update tr =
     (tr = [(StartSession, False)]
      \<or> (\<exists>ss. tr = [(StartSession, True), (StartTransaction ss, False)])
      \<or> (\<exists>ss body. tr = [(StartSession, True), (StartTransaction ss, True)] @ body
            \<and> try_body docId update ss True body)
      \<or> (\<exists>ss body cl. tr = [(StartSession, True), (StartTransaction ss, True)] @ body @ cl
            \<and> try_body docId update ss False body \<and> cleanup_tail ss cl))"


text \<open>
  The shapes a recorded run of a method with one driver call can take: the call, and after
  it the log line if \<open>handleDatabaseError\<close> was reached with \<open>errLogger\<close> set.
\<close>

definition single_shape :: "event \<Rightarrow> trace \<Rightarrow> bool" where
  "single_shape ev tr =
     (tr = [(ev, True)] \<or> tr = [(ev, False)]
      \<or> (\<exists>l. tr = [(ev, False), (LogError l, True)])
      \<or> (\<exists>l. tr = [(ev, True), (LogError l, True)]))"

text \<open>
  A run without retry: no operation is called twice, and once a call has thrown the only
  requests that follow are the cleanup calls.
\<close>

definition no_retry :: "trace \<Rightarrow> bool" where
  "no_retry tr = (at_most_once tr \<and> list_all is_cleanup (after_failure tr))"


section \<open>Properties\<close>

lemmas io_defs = io_return_def io_throw_def io_bind_def io_try_def await_def effect_def

lemma double_plus_one_safe [simp]:
  "- 9007199254740992 \<le> n \<Longrightarrow> n < 9007199254740992 \<Longrightarrow> double_plus_one n = n + 1"
  by (simp add: double_plus_one_def)

text \<open>On an error object the log statement cannot throw.\<close>

lemma handle_object:
  "handleDatabaseError W errLogger (CaughtObject t) =
     (\<lambda>s. (Inl (translated t),
           if errLogger then logger_error W (log_line t) s else s))"
  by (rule ext) (simp add: handleDatabaseError_def log_statement_def switch_and_throw_def io_defs)


subsection \<open>What \<open>handleDatabaseError\<close> throws\<close>

lemma translated_is_http:
  "\<not> (code e = NumCode 11000 \<and> keyValue e = None) \<Longrightarrow>
     \<exists>m st. translated (Raw e) = HttpException m st
       \<and> (st = BAD_REQUEST \<or> st = INTERNAL_SERVER_ERROR)"
  by (cases "code e"; cases "keyValue e") (auto simp: translated_def)

lemma translated_HttpException:
  "translated (HttpException m st) =
     HttpException ''Database operation failed'' INTERNAL_SERVER_ERROR"
  by (simp add: translated_def)

lemma translated_not_404_409:
  "translated t \<noteq> HttpException m NOT_FOUND" "translated t \<noteq> HttpException m CONFLICT"
  by (auto simp: translated_def split: code_val.splits option.splits)

lemma try_await_handle:
  "fst (c s) = Inl e \<Longrightarrow>
     outcome (io_try (await c) (\<lambda>err. handleDatabaseError W lg (CaughtObject err))) s = Inl (translated (Raw e))"
  by (cases "c s") (simp add: outcome_def io_defs handle_object)

lemma try_bind_await_handle:
  "fst (c s) = Inl e \<Longrightarrow>
     outcome (io_try (io_bind (await c) f) (\<lambda>err. handleDatabaseError W lg (CaughtObject err))) s =
       Inl (translated (Raw e))"
  by (cases "c s") (simp add: outcome_def io_defs handle_object)

lemma await_raw: "fst (c s) = Inl e \<Longrightarrow> outcome (await c) s = Inl (Raw e)"
  by (cases "c s") (simp add: outcome_def io_defs)

lemma abortTransaction_translates:
  "fst (s_abortTransaction W session s) = Inl e \<Longrightarrow>
     outcome (abortTransaction W lg session) s = Inl (translated (Raw e))"
  by (cases "s_abortTransaction W session s")
    (simp add: outcome_def abortTransaction_def io_defs handle_object)

lemma commitTransaction_translates:
  "s_commitTransaction W session s = (Inl e, s1) \<Longrightarrow>
     fst (s_abortTransaction W session s1) = Inr () \<Longrightarrow>
     outcome (commitTransaction W lg session) s = Inl (translated (Raw e))"
  by (cases "s_abortTransaction W session s1")
    (simp add: outcome_def commitTransaction_def io_defs handle_object)

lemma startTransaction_raw:
  "fst (m_startSession W s) = Inl e \<Longrightarrow> outcome (startTransaction W) s = Inl (Raw e)"
  "m_startSession W s = (Inr sess, s1) \<Longrightarrow> fst (s_startTransaction W sess s1) = Inl e \<Longrightarrow>
     outcome (startTransaction W) s = Inl (Raw e)"
   apply (cases "m_startSession W s")
   apply (simp add: startTransaction_def outcome_def io_defs)
  apply (cases "s_startTransaction W sess s1")
  apply (simp add: startTransaction_def outcome_def io_defs)
  done

text \<open>
  What \<open>updateById\<close> throws when its \<open>try\<close> block has thrown \<open>t\<close> and the
  \<open>abortTransaction\<close> of its \<open>catch\<close> block has returned.
\<close>

lemma updateById_translates:
  assumes "m_startSession W s = (Inr sess, s1)"
    and "s_startTransaction W sess s1 = (Inr (), s2)"
    and "updateById_try W docId update sess s2 = (Inl t, s3)"
    and "fst (s_abortTransaction W sess s3) = Inr ()"
  shows "outcome (updateById W lg docId update) s = Inl (translated t)"
proof -
  obtain x where ab: "s_abortTransaction W sess s3 = (Inr (), x)"
    using assms(4) by (cases "s_abortTransaction W sess s3") simp
  from assms(1-3) ab show ?thesis
    by (simp add: outcome_def updateById_def updateById_catch_def io_defs handle_object)
qed

text \<open>
  C1, as stated, fails: \<open>find\<close> has no \<open>catch\<close>, and the error of its query reaches the
  caller as the driver threw it. So does the error of the query of \<open>fullTextSearch\<close>, of
  the session start of \<open>updateById\<close>, which stands before the \<open>try\<close>, and of the
  \<open>abortTransaction\<close> that the \<open>catch\<close> block of \<open>commitTransaction\<close> awaits; and for
  an error of code 11000 without \<open>keyValue\<close>, \<open>create\<close> throws a \<open>TypeError\<close>.
\<close>

theorem find_propagates_raw_error:
  "outcome (find_r find_fails [] None None None) () = Inl (Raw network_error)
   \<and> \<not> is_HttpException (Raw network_error)
   \<and> outcome (fullTextSearch find_fails True ''bob'' ''name'') () = Inl (Raw network_error)
   \<and> outcome (updateById start_fails True ''65f0'' plain_update) () = Inl (Raw network_error)
   \<and> outcome (commitTransaction (commit_and_abort_fail None) True 0) () =
       Inl (Raw transaction_error)
   \<and> outcome (create (broken duplicate_bare) True JNull None) () =
       Inl (TypeError ''Cannot convert undefined or null to object'')"
  by (simp add: outcome_def find_r_def fullTextSearch_def updateById_def commitTransaction_def
      create_def find_fails_def start_fails_def commit_and_abort_fail_def broken_def calm_def
      io_defs handle_object translated_def duplicate_bare_def)

text \<open>
  C1 (amended). In \<open>create\<close>, \<open>createMany\<close>, \<open>findById\<close>, \<open>count\<close>, \<open>distinctValues\<close>,
  \<open>updateOne\<close>, \<open>updateMany\<close>, \<open>findOneAndUpdate\<close>, \<open>deleteOne\<close>, \<open>deleteMany\<close>,
  \<open>aggregate\<close> and \<open>abortTransaction\<close>, an error \<open>e\<close> thrown by the awaited driver call is
  caught and the method throws what \<open>handleDatabaseError\<close> makes of it, which is an
  \<open>HttpException\<close> of status \<open>BAD_REQUEST\<close> or \<open>INTERNAL_SERVER_ERROR\<close> unless \<open>e\<close> has
  code 11000 and no \<open>keyValue\<close>. The same holds for the commit of \<open>commitTransaction\<close> and
  for the read, the write and the commit in the \<open>try\<close> block of \<open>updateById\<close>, once the
  \<open>abortTransaction\<close> of the \<open>catch\<close> block has returned. \<open>find\<close>, \<open>findOne\<close> and
  \<open>startTransaction\<close> have no \<open>catch\<close> and throw \<open>e\<close> itself; \<open>isDatabaseConnected\<close>
  answers \<open>false\<close> when reading the state of the connection throws.
\<close>

theorem driver_errors_translated:
  "(\<not> (code e = NumCode 11000 \<and> keyValue e = None) \<longrightarrow>
      (\<exists>m st. translated (Raw e) = HttpException m st
         \<and> (st = BAD_REQUEST \<or> st = INTERNAL_SERVER_ERROR)))
   \<and> (fst (m_save W x opts s) = Inl e \<longrightarrow>
        outcome (create W lg x opts) s = Inl (translated (Raw e)))
   \<and> (fst (m_create W xs s) = Inl e \<longrightarrow>
        outcome (createMany W lg xs) s = Inl (translated (Raw e)))
   \<and> (fst (m_findById W docId p s) = Inl e \<longrightarrow>
        outcome (findById W lg docId p) s = Inl (translated (Raw e)))
   \<and> (fst (m_countDocuments W q s) = Inl e \<longrightarrow>
        outcome (count_r W lg q) s = Inl (translated (Raw e)))
   \<and> (fst (m_distinct W field qo s) = Inl e \<longrightarrow>
        outcome (distinctValues W lg field qo) s = Inl (translated (Raw e)))
   \<and> (fst (m_updateOne W q u s) = Inl e \<longrightarrow>
        outcome (updateOne W lg q u) s = Inl (translated (Raw e)))
   \<and> (fst (m_updateMany W q u s) = Inl e \<longrightarrow>
        outcome (updateMany W lg q u) s = Inl (translated (Raw e)))
   \<and> (fst (m_findOneAndUpdate W q
             (if incVersion opt
              then spread_with u ''$inc'' (JObj [(versionKey opt, JNum 1)]) else u)
             (upsert opt) s) = Inl e \<longrightarrow>
        outcome (findOneAndUpdate W lg q u opt) s = Inl (translated (Raw e)))
   \<and> (fst (m_deleteOne W q s) = Inl e \<longrightarrow>
        outcome (deleteOne W lg q) s = Inl (translated (Raw e)))
   \<and> (fst (m_deleteMany W q s) = Inl e \<longrightarrow>
        outcome (deleteMany W lg q) s = Inl (translated (Raw e)))
   \<and> (fst (m_aggregate W pl s) = Inl e \<longrightarrow>
        outcome (aggregate W lg pl) s = Inl (translated (Raw e)))
   \<and> (fst (s_abortTransaction W session s) = Inl e \<longrightarrow>
        outcome (abortTransaction W lg session) s = Inl (translated (Raw e)))
   \<and> (s_commitTransaction W session s = (Inl e, s1)
        \<and> fst (s_abortTransaction W session s1) = Inr () \<longrightarrow>
        outcome (commitTransaction W lg session) s = Inl (translated (Raw e)))
   \<and> (m_startSession W s = (Inr sess, s1) \<and> s_startTransaction W sess s1 = (Inr (), s2)
        \<and> m_findById_session W docId sess s2 = (Inl e, s3)
        \<and> fst (s_abortTransaction W sess s3) = Inr () \<longrightarrow>
        outcome (updateById W lg docId update) s = Inl (translated (Raw e)))
   \<and> (m_startSession W s = (Inr sess, s1) \<and> s_startTransaction W sess s1 = (Inr (), s2)
        \<and> m_findById_session W docId sess s2 = (Inr (Some doc), s3)
        \<and> \<not> (truthy (get_prop update ''__v'')
              \<and> strict_neq (get_prop doc ''__v'') (get_prop update ''__v''))
        \<and> m_findByIdAndUpdate_session W docId
             (spread_with update ''__v'' (plus_one (get_prop doc ''__v''))) sess s3 = (Inl e, s4)
        \<and> fst (s_abortTransaction W sess s4) = Inr () \<longrightarrow>
        outcome (updateById W lg docId update) s = Inl (translated (Raw e)))
   \<and> (m_startSession W s = (Inr sess, s1) \<and> s_startTransaction W sess s1 = (Inr (), s2)
        \<and> m_findById_session W docId sess s2 = (Inr (Some doc), s3)
        \<and> \<not> (truthy (get_prop update ''__v'')
              \<and> strict_neq (get_prop doc ''__v'') (get_prop update ''__v''))
        \<and> m_findByIdAndUpdate_session W docId
             (spread_with update ''__v'' (plus_one (get_prop doc ''__v''))) sess s3 = (Inr r, s4)
        \<and> s_commitTransaction W sess s4 = (Inl e, s5)
        \<and> fst (s_abortTransaction W sess s5) = Inr () \<longrightarrow>
        outcome (updateById W lg docId update) s = Inl (translated (Raw e)))
   \<and> (fst (m_find W q p (Some (or_zero sk)) (Some (or_zero li)) s) = Inl e \<longrightarrow>
        outcome (find_r W q p sk li) s = Inl (Raw e))
   \<and> (fst (m_findOne W q p s) = Inl e \<longrightarrow> outcome (findOne W q p) s = Inl (Raw e))
   \<and> (fst (m_startSession W s) = Inl e \<longrightarrow> outcome (startTransaction W) s = Inl (Raw e))
   \<and> (m_startSession W s = (Inr sess, s1) \<and> fst (s_startTransaction W sess s1) = Inl e \<longrightarrow>
        outcome (startTransaction W) s = Inl (Raw e))
   \<and> (m_readyState W s = None \<longrightarrow> outcome (isDatabaseConnected W) s = Inr False)"
proof (intro conjI impI)
  assume "\<not> (code e = NumCode 11000 \<and> keyValue e = None)"
  then show "\<exists>m st. translated (Raw e) = HttpException m st
         \<and> (st = BAD_REQUEST \<or> st = INTERNAL_SERVER_ERROR)"
    by (rule translated_is_http)
next
  assume h: "m_startSession W s = (Inr sess, s1) \<and> s_startTransaction W sess s1 = (Inr (), s2)
        \<and> m_findById_session W docId sess s2 = (Inl e, s3)
        \<and> fst (s_abortTransaction W sess s3) = Inr ()"
  then have "updateById_try W docId update sess s2 = (Inl (Raw e), s3)"
    by (simp add: updateById_try_def io_defs)
  with h show "outcome (updateById W lg docId update) s = Inl (translated (Raw e))"
    by (simp add: updateById_translates)
next
  assume h: "m_startSession W s = (Inr sess, s1) \<and> s_startTransaction W sess s1 = (Inr (), s2)
        \<and> m_findById_session W docId sess s2 = (Inr (Some doc), s3)
        \<and> \<not> (truthy (get_prop update ''__v'')
              \<and> strict_neq (get_prop doc ''__v'') (get_prop update ''__v''))
        \<and> m_findByIdAndUpdate_session W docId
             (spread_with update ''__v'' (plus_one (get_prop doc ''__v''))) sess s3 = (Inl e, s4)
        \<and> fst (s_abortTransaction W sess s4) = Inr ()"
  then have "updateById_try W docId update sess s2 = (Inl (Raw e), s4)"
    by (cases "truthy (get_prop update ''__v'')") (simp_all add: updateById_try_def io_defs)
  with h show "outcome (updateById W lg docId update) s = Inl (translated (Raw e))"
    by (simp add: updateById_translates)
next
  assume h: "m_startSession W s = (Inr sess, s1) \<and> s_startTransaction W sess s1 = (Inr (), s2)
        \<and> m_findById_session W docId sess s2 = (Inr (Some doc), s3)
        \<and> \<not> (truthy (get_prop update ''__v'')
              \<and> strict_neq (get_prop doc ''__v'') (get_prop update ''__v''))
        \<and> m_findByIdAndUpdate_session W docId
             (spread_with update ''__v'' (plus_one (get_prop doc ''__v''))) sess s3 = (Inr r, s4)
        \<and> s_commitTransaction W sess s4 = (Inl e, s5)
        \<and> fst (s_abortTransaction W sess s5) = Inr ()"
  then have "updateById_try W docId update sess s2 = (Inl (Raw e), s5)"
    by (cases "truthy (get_prop update ''__v'')") (simp_all add: updateById_try_def io_defs)
  with h show "outcome (updateById W lg docId update) s = Inl (translated (Raw e))"
    by (simp add: updateById_translates)
next
  assume "fst (m_startSession W s) = Inl e"
  then show "outcome (startTransaction W) s = Inl (Raw e)"
    by (rule startTransaction_raw)
next
  assume "m_startSession W s = (Inr sess, s1) \<and> fst (s_startTransaction W sess s1) = Inl e"
  then show "outcome (startTransaction W) s = Inl (Raw e)"
    by (simp add: startTransaction_raw)
next
  assume "m_readyState W s = None"
  then show "outcome (isDatabaseConnected W) s = Inr False"
    by (simp add: outcome_def isDatabaseConnected_def)
qed (simp_all only: create_def createMany_def findById_def count_r_def distinctValues_def
    updateOne_def updateMany_def findOneAndUpdate_def deleteOne_def deleteMany_def
    aggregate_def find_r_def findOne_def try_await_handle try_bind_await_handle await_raw
    abortTransaction_translates commitTransaction_translates)

text \<open>
  The amended C1 at a world whose every call throws a network error; for \<open>updateById\<close>
  at the worlds in which the read, the write and the commit throw it and the abort returns;
  for \<open>commitTransaction\<close> where the commit throws it and the abort returns; for
  \<open>startTransaction\<close> also where beginning the transaction throws.
\<close>

theorem driver_errors_translated_witness:
  "translated (Raw network_error) =
     HttpException ''Database operation failed'' INTERNAL_SERVER_ERROR
   \<and> outcome (create (broken network_error) True JNull None) () =
       Inl (translated (Raw network_error))
   \<and> outcome (createMany (broken network_error) True []) () =
       Inl (translated (Raw network_error))
   \<and> outcome (findById (broken network_error) True ''65f0'' None) () =
       Inl (translated (Raw network_error))
   \<and> outcome (count_r (broken network_error) True []) () =
       Inl (translated (Raw network_error))
   \<and> outcome (distinctValues (broken network_error) True ''age'' None) () =
       Inl (translated (Raw network_error))
   \<and> outcome (updateOne (broken network_error) True [] []) () =
       Inl (translated (Raw network_error))
   \<and> outcome (updateMany (broken network_error) True [] []) () =
       Inl (translated (Raw network_error))
   \<and> outcome (findOneAndUpdate (broken network_error) True [] [] default_options) () =
       Inl (translated (Raw network_error))
   \<and> outcome (deleteOne (broken network_error) True []) () =
       Inl (translated (Raw network_error))
   \<and> outcome (deleteMany (broken network_error) True []) () =
       Inl (translated (Raw network_error))
   \<and> outcome (aggregate (broken network_error) True []) () =
       Inl (translated (Raw network_error))
   \<and> outcome (abortTransaction (broken network_error) True 0) () =
       Inl (translated (Raw network_error))
   \<and> outcome (commitTransaction (commit_fails None) True 0) () =
       Inl (translated (Raw network_error))
   \<and> outcome (updateById read_fails True ''65f0'' plain_update) () =
       Inl (translated (Raw network_error))
   \<and> outcome (updateById (write_fails (Some stored_v3)) True ''65f0'' plain_update) () =
       Inl (translated (Raw network_error))
   \<and> outcome (updateById (commit_fails (Some stored_v3)) True ''65f0'' plain_update) () =
       Inl (translated (Raw network_error))
   \<and> outcome (find_r (broken network_error) [] None None None) () = Inl (Raw network_error)
   \<and> outcome (findOne (broken network_error) [] None) () = Inl (Raw network_error)
   \<and> outcome (startTransaction (broken network_error)) () = Inl (Raw network_error)
   \<and> outcome (startTransaction begin_fails) () = Inl (Raw transaction_error)
   \<and> outcome (isDatabaseConnected (broken network_error)) () = Inr False"
proof -
  have a: "translated (Raw network_error) =
     HttpException ''Database operation failed'' INTERNAL_SERVER_ERROR
   \<and> outcome (create (broken network_error) True JNull None) () =
       Inl (translated (Raw network_error))
   \<and> outcome (createMany (broken network_error) True []) () =
       Inl (translated (Raw network_error))
   \<and> outcome (findById (broken network_error) True ''65f0'' None) () =
       Inl (translated (Raw network_error))
   \<and> outcome (count_r (broken network_error) True []) () =
       Inl (translated (Raw network_error))
   \<and> outcome (distinctValues (broken network_error) True ''age'' None) () =
       Inl (translated (Raw network_error))
   \<and> outcome (updateOne (broken network_error) True [] []) () =
       Inl (translated (Raw network_error))
   \<and> outcome (updateMany (broken network_error) True [] []) () =
       Inl (translated (Raw network_error))
   \<and> outcome (findOneAndUpdate (broken network_error) True [] [] default_options) () =
       Inl (translated (Raw network_error))
   \<and> outcome (deleteOne (broken network_error) True []) () =
       Inl (translated (Raw network_error))
   \<and> outcome (deleteMany (broken network_error) True []) () =
       Inl (translated (Raw network_error))
   \<and> outcome (aggregate (broken network_error) True []) () =
       Inl (translated (Raw network_error))
   \<and> outcome (abortTransaction (broken network_error) True 0) () =
       Inl (translated (Raw network_error))
   \<and> outcome (find_r (broken network_error) [] None None None) () = Inl (Raw network_error)
   \<and> outcome (findOne (broken network_error) [] None) () = Inl (Raw network_error)
   \<and> outcome (startTransaction (broken network_error)) () = Inl (Raw network_error)
   \<and> outcome (isDatabaseConnected (broken network_error)) () = Inr False"
    using driver_errors_translated [where W = "broken network_error" and e = network_error
      and s = "()" and ?s1.0 = "()" and ?s2.0 = "()" and ?s3.0 = "()" and ?s4.0 = "()"
      and ?s5.0 = "()" and lg = True and x = JNull and opts = None and xs = "[]"
      and docId = "''65f0''" and p = None and q = "[]" and field = "''age''" and qo = None
      and u = "[]" and pl = "[]" and sk = None and li = None and opt = default_options
      and session = 0 and sess = 0 and update = plain_update and doc = stored_v3
      and r = "Some [(''name'', JStr ''Bob''), (''__v'', JNum 4)]"]
    by (simp add: broken_def network_error_def translated_def default_options_def)
  have b: "outcome (commitTransaction (commit_fails None) True 0) () =
       Inl (translated (Raw network_error))"
    using driver_errors_translated [where W = "commit_fails None" and e = network_error
      and s = "()" and ?s1.0 = "()" and ?s2.0 = "()" and ?s3.0 = "()" and ?s4.0 = "()"
      and ?s5.0 = "()" and lg = True and x = JNull and opts = None and xs = "[]"
      and docId = "''65f0''" and p = None and q = "[]" and field = "''age''" and qo = None
      and u = "[]" and pl = "[]" and sk = None and li = None and opt = default_options
      and session = 0 and sess = 0 and update = plain_update and doc = stored_v3
      and r = "Some [(''name'', JStr ''Bob''), (''__v'', JNum 4)]"]
    by (simp add: commit_fails_def calm_def)
  have c: "outcome (updateById read_fails True ''65f0'' plain_update) () =
       Inl (translated (Raw network_error))"
    using driver_errors_translated [where W = read_fails and e = network_error
      and s = "()" and ?s1.0 = "()" and ?s2.0 = "()" and ?s3.0 = "()" and ?s4.0 = "()"
      and ?s5.0 = "()" and lg = True and x = JNull and opts = None and xs = "[]"
      and docId = "''65f0''" and p = None and q = "[]" and field = "''age''" and qo = None
      and u = "[]" and pl = "[]" and sk = None and li = None and opt = default_options
      and session = 0 and sess = 0 and update = plain_update and doc = stored_v3
      and r = "Some [(''name'', JStr ''Bob''), (''__v'', JNum 4)]"]
    by (simp add: read_fails_def calm_def)
  have d: "outcome (updateById (write_fails (Some stored_v3)) True ''65f0'' plain_update) () =
       Inl (translated (Raw network_error))"
    using driver_errors_translated [where W = "write_fails (Some stored_v3)" and e = network_error
      and s = "()" and ?s1.0 = "()" and ?s2.0 = "()" and ?s3.0 = "()" and ?s4.0 = "()"
      and ?s5.0 = "()" and lg = True and x = JNull and opts = None and xs = "[]"
      and docId = "''65f0''" and p = None and q = "[]" and field = "''age''" and qo = None
      and u = "[]" and pl = "[]" and sk = None and li = None and opt = default_options
      and session = 0 and sess = 0 and update = plain_update and doc = stored_v3
      and r = "Some [(''name'', JStr ''Bob''), (''__v'', JNum 4)]"]
    by (simp add: write_fails_def calm_def plain_update_def get_prop_def)
  have v: "spread_with plain_update ''__v'' (plus_one (get_prop stored_v3 ''__v'')) =
      [(''name'', JStr ''Bob''), (''__v'', JNum 4)]"
    by (simp add: spread_with_def plain_update_def stored_v3_def get_prop_def)
  have e: "outcome (updateById (commit_fails (Some stored_v3)) True ''65f0'' plain_update) () =
       Inl (translated (Raw network_error))"
    using driver_errors_translated [where W = "commit_fails (Some stored_v3)" and e = network_error
      and s = "()" and ?s1.0 = "()" and ?s2.0 = "()" and ?s3.0 = "()" and ?s4.0 = "()"
      and ?s5.0 = "()" and lg = True and x = JNull and opts = None and xs = "[]"
      and docId = "''65f0''" and p = None and q = "[]" and field = "''age''" and qo = None
      and u = "[]" and pl = "[]" and sk = None and li = None and opt = default_options
      and session = 0 and sess = 0 and update = plain_update and doc = stored_v3
      and r = "Some [(''name'', JStr ''Bob''), (''__v'', JNum 4)]"] v
    by (simp add: commit_fails_def calm_def plain_update_def get_prop_def)
  have f: "outcome (startTransaction begin_fails) () = Inl (Raw transaction_error)"
    using driver_errors_translated [where W = begin_fails and e = transaction_error
        and s = "()" and ?s1.0 = "()" and sess = 0]
    by (simp add: begin_fails_def calm_def)
  from a b c d e f show ?thesis by blast
qed

text \<open>
  C2, as stated, fails at code 11000: the message is built from the error's \<open>keyValue\<close>, so
  two errors of that code get two messages, and without \<open>keyValue\<close> no \<open>HttpException\<close>
  is thrown at all.
\<close>

theorem duplicate_key_message_not_fixed:
  "outcome (handleDatabaseError (calm None) False (CaughtObject (Raw duplicate_email))) () =
     (Inl (HttpException ''a@b.c already exists'' BAD_REQUEST) :: thrown + unit)
   \<and> outcome (handleDatabaseError (calm None) False (CaughtObject (Raw duplicate_name))) () =
     (Inl (HttpException ''bob already exists'' BAD_REQUEST) :: thrown + unit)
   \<and> outcome (handleDatabaseError (calm None) False (CaughtObject (Raw duplicate_bare))) () =
     (Inl (TypeError ''Cannot convert undefined or null to object'') :: thrown + unit)"
  by (simp add: outcome_def handle_object translated_def duplicate_email_def
      duplicate_name_def duplicate_bare_def)

text \<open>
  C2 (amended). For a caught error whose numeric code is 11001, 12000, 12010, 12102 or 12134
  the thrown \<open>HttpException\<close> has status \<open>BAD_REQUEST\<close> and the fixed message of that code;
  for code 11000 with a \<open>keyValue\<close> it has status \<open>BAD_REQUEST\<close> and the message made of
  the first value of \<open>keyValue\<close> followed by \<open>already exists\<close>; for any other code, a code
  that is not a number, or none, it has status \<open>INTERNAL_SERVER_ERROR\<close> and the message
  \<open>Database operation failed\<close>.
\<close>

theorem error_table:
  "(thrown_code error = NumCode c \<and> fixed_message c = Some msg \<longrightarrow>
      outcome (handleDatabaseError W errLogger (CaughtObject error)) s =
        (Inl (HttpException msg BAD_REQUEST) :: thrown + 'r))
   \<and> (thrown_code error = NumCode 11000 \<and> thrown_keyValue error = Some kv \<longrightarrow>
      outcome (handleDatabaseError W errLogger (CaughtObject error)) s =
        Inl (HttpException (first_value kv @ '' already exists'') BAD_REQUEST))
   \<and> ((\<forall>n. thrown_code error = NumCode n \<longrightarrow> n \<noteq> 11000 \<and> fixed_message n = None) \<longrightarrow>
      outcome (handleDatabaseError W errLogger (CaughtObject error)) s =
        Inl (HttpException ''Database operation failed'' INTERNAL_SERVER_ERROR))"
proof (intro conjI impI)
  assume "thrown_code error = NumCode c \<and> fixed_message c = Some msg"
  then show "outcome (handleDatabaseError W errLogger (CaughtObject error)) s =
      Inl (HttpException msg BAD_REQUEST)"
    by (auto simp: outcome_def handle_object translated_def fixed_message_def
        split: if_splits)
next
  assume "thrown_code error = NumCode 11000 \<and> thrown_keyValue error = Some kv"
  then show "outcome (handleDatabaseError W errLogger (CaughtObject error)) s =
      Inl (HttpException (first_value kv @ '' already exists'') BAD_REQUEST)"
    by (simp add: outcome_def handle_object translated_def)
next
  assume h: "\<forall>n. thrown_code error = NumCode n \<longrightarrow> n \<noteq> 11000 \<and> fixed_message n = None"
  show "outcome (handleDatabaseError W errLogger (CaughtObject error)) s =
      Inl (HttpException ''Database operation failed'' INTERNAL_SERVER_ERROR)"
  proof (cases "thrown_code error")
    case (NumCode n)
    with h have "n \<noteq> 11000" "fixed_message n = None" by auto
    with NumCode show ?thesis
      by (auto simp: outcome_def handle_object translated_def fixed_message_def
          split: if_splits)
  qed (simp_all add: outcome_def handle_object translated_def)
qed

text \<open>The amended C2 at one error for each of its three cases, and at an unlisted code.\<close>

theorem error_table_witness:
  "outcome (handleDatabaseError (calm None) True
      (CaughtObject (Raw (DriverError ''MongoServerError'' ''key too long'' (NumCode 12102) None)))) () =
     (Inl (HttpException ''Index key too long'' BAD_REQUEST) :: thrown + unit)
   \<and> outcome (handleDatabaseError (calm None) True (CaughtObject (Raw duplicate_email))) () =
     (Inl (HttpException ''a@b.c already exists'' BAD_REQUEST) :: thrown + unit)
   \<and> outcome (handleDatabaseError (calm None) True (CaughtObject (Raw network_error))) () =
     (Inl (HttpException ''Database operation failed'' INTERNAL_SERVER_ERROR) :: thrown + unit)
   \<and> outcome (handleDatabaseError (calm None) True
      (CaughtObject (Raw (DriverError ''MongoServerError'' ''no such cmd'' (NumCode 59) None)))) () =
     (Inl (HttpException ''Database operation failed'' INTERNAL_SERVER_ERROR) :: thrown + unit)"
proof -
  note t = error_table [where W = "calm None" and errLogger = True and s = "()",
      where ?'r = unit]
  have a: "outcome (handleDatabaseError (calm None) True
      (CaughtObject (Raw (DriverError ''MongoServerError'' ''key too long'' (NumCode 12102) None)))) () =
     (Inl (HttpException ''Index key too long'' BAD_REQUEST) :: thrown + unit)"
    by (rule t [where c = 12102, THEN conjunct1, rule_format]) (simp add: fixed_message_def)
  have b: "outcome (handleDatabaseError (calm None) True (CaughtObject (Raw duplicate_email))) () =
     (Inl (HttpException ''a@b.c already exists'' BAD_REQUEST) :: thrown + unit)"
    using t [THEN conjunct2, THEN conjunct1, rule_format, of "Raw duplicate_email" "[''a@b.c'']"]
    by (simp add: duplicate_email_def)
  have c: "outcome (handleDatabaseError (calm None) True (CaughtObject (Raw network_error))) () =
     (Inl (HttpException ''Database operation failed'' INTERNAL_SERVER_ERROR) :: thrown + unit)"
    by (rule t [THEN conjunct2, THEN conjunct2, rule_format]) (simp add: network_error_def)
  have d: "outcome (handleDatabaseError (calm None) True
      (CaughtObject (Raw (DriverError ''MongoServerError'' ''no such cmd'' (NumCode 59) None)))) () =
     (Inl (HttpException ''Database operation failed'' INTERNAL_SERVER_ERROR) :: thrown + unit)"
    by (rule t [THEN conjunct2, THEN conjunct2, rule_format]) (simp add: fixed_message_def)
  from a b c d show ?thesis by blast
qed


text \<open>
  On every error object the flag is inert: what is thrown is the same with \<open>errLogger\<close> set
  and unset, and the flag decides only whether the one log line is written.
\<close>

lemma logging_inert_on_objects:
  "outcome (handleDatabaseError W True (CaughtObject error)) s =
     (outcome (handleDatabaseError W False (CaughtObject error)) s :: thrown + 'a)
   \<and> outcome (handleDatabaseError W False (CaughtObject error)) s =
       (Inl (translated error) :: thrown + 'a)
   \<and> snd (handleDatabaseError W False (CaughtObject error) s :: (thrown + 'a) \<times> 's) = s
   \<and> snd (handleDatabaseError W True (CaughtObject error) s :: (thrown + 'a) \<times> 's) =
       logger_error W (log_line error) s
   \<and> calls (handleDatabaseError (spy W) False (CaughtObject error)
        :: ('a, 's \<times> trace) io) s = []
   \<and> calls (handleDatabaseError (spy W) True (CaughtObject error)
        :: ('a, 's \<times> trace) io) s = [(LogError (log_line error), True)]"
  by (simp add: outcome_def calls_def handle_object spy_def recorded_effect_def)


subsection \<open>The recorder, and the runs of \<open>updateById\<close>\<close>

lemma spy_sel [simp]:
  "m_save (spy W) = (\<lambda>x opts. recorded (Save x opts) (m_save W x opts))"
  "m_create (spy W) = (\<lambda>xs. recorded (Create xs) (m_create W xs))"
  "m_find (spy W) = (\<lambda>q p sk li. recorded (Find q p sk li) (m_find W q p sk li))"
  "m_findById (spy W) = (\<lambda>i p. recorded (FindById i p) (m_findById W i p))"
  "m_findOne (spy W) = (\<lambda>q p. recorded (FindOne q p) (m_findOne W q p))"
  "m_countDocuments (spy W) = (\<lambda>q. recorded (CountDocuments q) (m_countDocuments W q))"
  "m_distinct (spy W) = (\<lambda>f q. recorded (Distinct f q) (m_distinct W f q))"
  "m_updateOne (spy W) = (\<lambda>q u. recorded (UpdateOne q u) (m_updateOne W q u))"
  "m_updateMany (spy W) = (\<lambda>q u. recorded (UpdateMany q u) (m_updateMany W q u))"
  "m_findOneAndUpdate (spy W) =
     (\<lambda>q u b. recorded (FindOneAndUpdate q u b) (m_findOneAndUpdate W q u b))"
  "m_deleteOne (spy W) = (\<lambda>q. recorded (DeleteOne q) (m_deleteOne W q))"
  "m_deleteMany (spy W) = (\<lambda>q. recorded (DeleteMany q) (m_deleteMany W q))"
  "m_aggregate (spy W) = (\<lambda>p. recorded (Aggregate p) (m_aggregate W p))"
  "m_readyState (spy W) = (\<lambda>(s, tr). m_readyState W s)"
  "m_startSession (spy W) = recorded StartSession (m_startSession W)"
  "m_findById_session (spy W) =
     (\<lambda>i ss. recorded (FindByIdIn i ss) (m_findById_session W i ss))"
  "m_findByIdAndUpdate_session (spy W) =
     (\<lambda>i u ss. recorded (FindByIdAndUpdateIn i u ss) (m_findByIdAndUpdate_session W i u ss))"
  "s_startTransaction (spy W) = (\<lambda>ss. recorded (StartTransaction ss) (s_startTransaction W ss))"
  "s_commitTransaction (spy W) =
     (\<lambda>ss. recorded (CommitTransaction ss) (s_commitTransaction W ss))"
  "s_abortTransaction (spy W) = (\<lambda>ss. recorded (AbortTransaction ss) (s_abortTransaction W ss))"
  "s_endSession (spy W) = (\<lambda>ss. recorded_effect (EndSession ss) (s_endSession W ss))"
  "logger_error (spy W) = (\<lambda>l. recorded_effect (LogError l) (logger_error W l))"
  by (simp_all add: spy_def)

lemma recorded_apply [simp]:
  "recorded ev c (s, tr) = (case c s of (r, s') \<Rightarrow> (r, (s', tr @ [(ev, returned r)])))"
  by (simp add: recorded_def)

lemma recorded_effect_apply [simp]: "recorded_effect ev f (s, tr) = (f s, tr @ [(ev, True)])"
  by (simp add: recorded_effect_def)

lemma get_prop_spread_same [simp]: "get_prop (spread_with obj k v) k = v"
  by (simp add: get_prop_def spread_with_def update_conv')

lemma get_prop_spread_other [simp]:
  "k' \<noteq> k \<Longrightarrow> get_prop (spread_with obj k v) k' = get_prop obj k'"
  by (simp add: get_prop_def spread_with_def update_conv')



lemmas run_defs = outcome_def calls_def requests_def updateById_def updateById_try_def
  updateById_catch_def io_defs handle_object

lemma updateById_catch_outcome:
  "outcome (updateById_catch W lg sess error) x =
     (case fst (s_abortTransaction W sess x) of
        Inl e \<Rightarrow> Inl (Raw e) | Inr u \<Rightarrow> Inl (translated error))"
proof -
  obtain ra x' where ab: "s_abortTransaction W sess x = (ra, x')"
    by (cases "s_abortTransaction W sess x")
  then show ?thesis
    by (cases ra) (simp_all add: outcome_def updateById_catch_def io_defs handle_object)
qed

lemma updateById_catch_throws: "outcome (updateById_catch W lg sess error) x \<noteq> Inr r"
  by (simp add: updateById_catch_outcome split: sum.splits)

lemma updateById_started:
  assumes "m_startSession W s = (Inr sess, s1)"
    and "s_startTransaction W sess s1 = (Inr (), s2)"
  shows "updateById W lg docId update s =
           io_try (updateById_try W docId update sess) (updateById_catch W lg sess) s2"
  using assms by (simp add: updateById_def io_bind_def await_def)

lemma updateById_returns_try:
  assumes "m_startSession W s = (Inr sess, s1)"
    and "s_startTransaction W sess s1 = (Inr (), s2)"
    and "outcome (updateById W lg docId update) s = Inr r"
  shows "outcome (updateById_try W docId update sess) s2 = Inr r"
proof -
  obtain rb sb where b: "updateById_try W docId update sess s2 = (rb, sb)"
    by (cases "updateById_try W docId update sess s2")
  show ?thesis
  proof (cases rb)
    case (Inl t)
    with b assms have "outcome (updateById_catch W lg sess t) sb = Inr r"
      by (simp add: updateById_started outcome_def io_try_def)
    then show ?thesis by (simp add: updateById_catch_throws)
  next
    case (Inr v)
    with b assms show ?thesis by (simp add: updateById_started outcome_def io_try_def)
  qed
qed

lemma updateById_try_returns:
  assumes "m_findById_session W docId sess s2 = (Inr (Some doc), s3)"
    and "outcome (updateById_try W docId update sess) s2 = Inr r"
  shows "\<not> (truthy (get_prop update ''__v'')
            \<and> strict_neq (get_prop doc ''__v'') (get_prop update ''__v''))
     \<and> (\<exists>s4 s5. m_findByIdAndUpdate_session W docId
            (spread_with update ''__v'' (plus_one (get_prop doc ''__v''))) sess s3 = (Inr r, s4)
          \<and> s_commitTransaction W sess s4 = (Inr (), s5))"
proof -
  let ?u = "spread_with update ''__v'' (plus_one (get_prop doc ''__v''))"
  obtain rw s4 where w: "m_findByIdAndUpdate_session W docId ?u sess s3 = (rw, s4)"
    by (cases "m_findByIdAndUpdate_session W docId ?u sess s3")
  obtain rc s5 where c: "s_commitTransaction W sess s4 = (rc, s5)"
    by (cases "s_commitTransaction W sess s4")
  show ?thesis
    using assms w c
    by (cases rw; cases rc)
      (simp_all add: outcome_def updateById_try_def io_defs split: if_splits)
qed


lemma updateById_catch_spy:
  "snd (snd (updateById_catch (spy W) lg sess error (x, tr) :: (thrown + 'a) \<times> 's \<times> trace)) =
     tr @ (case fst (s_abortTransaction W sess x) of
             Inl e \<Rightarrow> [(AbortTransaction sess, False)]
           | Inr u \<Rightarrow> [(AbortTransaction sess, True), (EndSession sess, True)]
                      @ (if lg then [(LogError (log_line error), True)] else []))"
proof -
  obtain ra x' where ab: "s_abortTransaction W sess x = (ra, x')"
    by (cases "s_abortTransaction W sess x")
  then show ?thesis
    by (cases ra) (simp_all add: updateById_catch_def io_defs handle_object)
qed

lemma updateById_catch_tail:
  "\<exists>cl. snd (snd (updateById_catch (spy W) lg sess error (x, tr) :: (thrown + 'a) \<times> 's \<times> trace))
          = tr @ cl \<and> cleanup_tail sess cl"
  by (cases "fst (s_abortTransaction W sess x)")
    (simp_all add: updateById_catch_spy cleanup_tail_def)

lemma updateById_try_spy:
  "\<exists>res x' body. updateById_try (spy W) docId update sess (x, tr) = (res, x', tr @ body)
      \<and> try_body docId update sess (returned res) body"
proof -
  obtain rr s3 where r: "m_findById_session W docId sess x = (rr, s3)"
    by (cases "m_findById_session W docId sess x")
  show ?thesis
  proof (cases rr)
    case (Inl e)
    with r show ?thesis by (simp add: updateById_try_def io_defs try_body_def)
  next
    case (Inr found)
    show ?thesis
    proof (cases found)
      case None
      with r Inr show ?thesis by (simp add: updateById_try_def io_defs try_body_def)
    next
      case (Some doc)
      let ?u = "spread_with update ''__v'' (plus_one (get_prop doc ''__v''))"
      obtain rw s4 where w: "m_findByIdAndUpdate_session W docId ?u sess s3 = (rw, s4)"
        by (cases "m_findByIdAndUpdate_session W docId ?u sess s3")
      obtain rc s5 where c: "s_commitTransaction W sess s4 = (rc, s5)"
        by (cases "s_commitTransaction W sess s4")
      show ?thesis
      proof (cases "truthy (get_prop update ''__v'')
              \<and> strict_neq (get_prop doc ''__v'') (get_prop update ''__v'')")
        case True
        with r Inr Some show ?thesis by (simp add: updateById_try_def io_defs try_body_def)
      next
        case False
        with r Inr Some w c show ?thesis
          by (cases rw; cases rc) (auto simp add: updateById_try_def io_defs try_body_def)
      qed
    qed
  qed
qed

lemma updateById_has_shape:
  "updateById_shape docId update (calls (updateById (spy W) lg docId update) s)"
proof -
  obtain r0 s1 where a: "m_startSession W s = (r0, s1)" by (cases "m_startSession W s")
  show ?thesis
  proof (cases r0)
    case (Inl e)
    with a show ?thesis by (simp add: calls_def updateById_def io_defs updateById_shape_def)
  next
    case (Inr sess)
    obtain r1 s2 where b: "s_startTransaction W sess s1 = (r1, s2)"
      by (cases "s_startTransaction W sess s1")
    show ?thesis
    proof (cases r1)
      case (Inl e)
      with a Inr b show ?thesis
        by (simp add: calls_def updateById_def io_defs updateById_shape_def)
    next
      case (Inr u)
      let ?tr = "[(StartSession, True), (StartTransaction sess, True)]"
      from updateById_try_spy [of W docId update sess s2 ?tr]
      obtain res x' body
        where t: "updateById_try (spy W) docId update sess (s2, ?tr) = (res, x', ?tr @ body)"
        and tb: "try_body docId update sess (returned res) body" by blast
      have run: "updateById (spy W) lg docId update (s, []) =
          io_try (updateById_try (spy W) docId update sess)
            (updateById_catch (spy W) lg sess) (s2, ?tr)"
        using a \<open>r0 = Inr sess\<close> b Inr by (simp add: updateById_def io_bind_def await_def)
      show ?thesis
      proof (cases res)
        case (Inr v)
        with t tb run show ?thesis
          by (auto simp add: calls_def io_try_def updateById_shape_def)
      next
        case (Inl th)
        from updateById_catch_tail [of W lg sess th x' "?tr @ body"]
        obtain cl
          where c: "snd (snd (updateById_catch (spy W) lg sess th (x', ?tr @ body)
                      :: (thrown + jsobj option) \<times> _)) = (?tr @ body) @ cl"
          and ct: "cleanup_tail sess cl" by blast
        from t Inl run c have "calls (updateById (spy W) lg docId update) s = ?tr @ body @ cl"
          by (simp add: calls_def io_try_def)
        with tb ct Inl show ?thesis
          unfolding updateById_shape_def by auto
      qed
    qed
  qed
qed


subsection \<open>The version check of \<open>updateById\<close>\<close>

text \<open>
  C3, as stated, fails: an update that carries no \<open>__v\<close> differs in version from a document
  stored at version 3, and it is written and committed all the same.
\<close>

theorem update_without_version_is_written:
  "strict_neq (get_prop stored_v3 ''__v'') (get_prop plain_update ''__v'')
   \<and> outcome (updateById (calm (Some stored_v3)) False ''65f0'' plain_update) () =
       Inr (Some [(''name'', JStr ''Bob''), (''__v'', JNum 4)])
   \<and> requests (calls (updateById (spy (calm (Some stored_v3))) False ''65f0'' plain_update) ()) =
       [StartSession, StartTransaction 0, FindByIdIn ''65f0'' 0,
        FindByIdAndUpdateIn ''65f0'' [(''name'', JStr ''Bob''), (''__v'', JNum 4)] 0,
        CommitTransaction 0, EndSession 0]"
  by (simp add: run_defs calm_def stored_v3_def plain_update_def get_prop_def spread_with_def)

text \<open>
  C3 (amended). In a call \<open>updateById(id, update)\<close> whose session has started, whose
  transaction has begun and whose read of the document in the session has found it: whenever
  \<open>update.__v\<close> is truthy and differs from the stored \<open>__v\<close>, the \<open>try\<close> block throws the
  \<open>HttpException\<close> \<open>Concurrency conflict\<close> of status \<open>CONFLICT\<close>, the next call is
  \<open>abortTransaction\<close>, no write is performed, and the method throws.
\<close>

theorem conflict_when_supplied_version_differs:
  assumes "m_startSession W s = (Inr sess, s1)"
    and "s_startTransaction W sess s1 = (Inr (), s2)"
    and "m_findById_session W docId sess s2 = (Inr (Some doc), s3)"
    and "truthy (get_prop update ''__v'')"
    and "strict_neq (get_prop doc ''__v'') (get_prop update ''__v'')"
  shows "updateById_try W docId update sess s2 =
           (Inl (HttpException ''Concurrency conflict'' CONFLICT), s3)
     \<and> take 4 (requests (calls (updateById (spy W) lg docId update) s)) =
           [StartSession, StartTransaction sess, FindByIdIn docId sess, AbortTransaction sess]
     \<and> ''findByIdAndUpdate''
           \<notin> set (map op_name (requests (calls (updateById (spy W) lg docId update) s)))
     \<and> (\<exists>t. outcome (updateById W lg docId update) s = Inl t)"
proof -
  obtain ra s4 where ab: "s_abortTransaction W sess s3 = (ra, s4)"
    by (cases "s_abortTransaction W sess s3")
  show ?thesis
    using assms ab by (cases ra; cases lg) (simp_all add: run_defs)
qed

text \<open>The amended C3 at the stale update of a document stored at version 3.\<close>

theorem conflict_when_supplied_version_differs_witness:
  "updateById_try (calm (Some stored_v3)) ''65f0'' stale_update 0 () =
           (Inl (HttpException ''Concurrency conflict'' CONFLICT), ())
     \<and> take 4 (requests (calls (updateById (spy (calm (Some stored_v3))) True ''65f0''
          stale_update) ())) =
           [StartSession, StartTransaction 0, FindByIdIn ''65f0'' 0, AbortTransaction 0]
     \<and> ''findByIdAndUpdate''
           \<notin> set (map op_name (requests (calls (updateById (spy (calm (Some stored_v3))) True
                ''65f0'' stale_update) ())))
     \<and> (\<exists>t. outcome (updateById (calm (Some stored_v3)) True ''65f0'' stale_update) () = Inl t)"
  by (rule conflict_when_supplied_version_differs
        [where W = "calm (Some stored_v3)" and s = "()" and sess = 0 and ?s1.0 = "()"
          and ?s2.0 = "()" and ?s3.0 = "()" and doc = stored_v3 and update = stale_update
          and docId = "''65f0''" and lg = True])
    (simp_all add: calm_def stored_v3_def stale_update_def get_prop_def)

text \<open>
  C5. In a call of \<open>updateById\<close> whose session has started, whose transaction has begun
  and whose read has found a document, an update whose \<open>__v\<close> is absent, 0 or otherwise
  falsy is never refused for its version: whatever the version of the document, the call after
  the read is the write, and the \<open>try\<close> block does not throw the conflict.
\<close>

theorem falsy_version_skips_check:
  assumes "m_startSession W s = (Inr sess, s1)"
    and "s_startTransaction W sess s1 = (Inr (), s2)"
    and "m_findById_session W docId sess s2 = (Inr (Some doc), s3)"
    and "\<not> truthy (get_prop update ''__v'')"
  shows "take 4 (requests (calls (updateById (spy W) lg docId update) s)) =
           [StartSession, StartTransaction sess, FindByIdIn docId sess,
            FindByIdAndUpdateIn docId
              (spread_with update ''__v'' (plus_one (get_prop doc ''__v''))) sess]
     \<and> outcome (updateById_try W docId update sess) s2
           \<noteq> Inl (HttpException ''Concurrency conflict'' CONFLICT)"
proof -
  let ?u = "spread_with update ''__v'' (plus_one (get_prop doc ''__v''))"
  obtain rw s4 where w: "m_findByIdAndUpdate_session W docId ?u sess s3 = (rw, s4)"
    by (cases "m_findByIdAndUpdate_session W docId ?u sess s3")
  obtain rc s5 where c: "s_commitTransaction W sess s4 = (rc, s5)"
    by (cases "s_commitTransaction W sess s4")
  obtain ra4 t4 where a4: "s_abortTransaction W sess s4 = (ra4, t4)"
    by (cases "s_abortTransaction W sess s4")
  obtain ra5 t5 where a5: "s_abortTransaction W sess s5 = (ra5, t5)"
    by (cases "s_abortTransaction W sess s5")
  show ?thesis
    using assms w c a4 a5
    by (cases rw; cases rc; cases ra4; cases ra5; cases lg) (simp_all add: run_defs)
qed

text \<open>C5 at the update that carries version 0, on a document stored at version 3.\<close>

theorem falsy_version_skips_check_witness:
  "take 4 (requests (calls (updateById (spy (calm (Some stored_v3))) False ''65f0''
      zero_update) ())) =
           [StartSession, StartTransaction 0, FindByIdIn ''65f0'' 0,
            FindByIdAndUpdateIn ''65f0''
              (spread_with zero_update ''__v'' (plus_one (get_prop stored_v3 ''__v''))) 0]
     \<and> outcome (updateById_try (calm (Some stored_v3)) ''65f0'' zero_update 0) ()
           \<noteq> Inl (HttpException ''Concurrency conflict'' CONFLICT)
     \<and> spread_with zero_update ''__v'' (plus_one (get_prop stored_v3 ''__v'')) =
           [(''name'', JStr ''Bob''), (''__v'', JNum 4)]"
proof -
  have "take 4 (requests (calls (updateById (spy (calm (Some stored_v3))) False ''65f0''
      zero_update) ())) =
           [StartSession, StartTransaction 0, FindByIdIn ''65f0'' 0,
            FindByIdAndUpdateIn ''65f0''
              (spread_with zero_update ''__v'' (plus_one (get_prop stored_v3 ''__v''))) 0]
     \<and> outcome (updateById_try (calm (Some stored_v3)) ''65f0'' zero_update 0) ()
           \<noteq> Inl (HttpException ''Concurrency conflict'' CONFLICT)"
    by (rule falsy_version_skips_check
          [where W = "calm (Some stored_v3)" and s = "()" and sess = 0 and ?s1.0 = "()"
            and ?s2.0 = "()" and ?s3.0 = "()" and doc = stored_v3 and update = zero_update
            and docId = "''65f0''" and lg = False])
      (simp_all add: calm_def zero_update_def get_prop_def)
  moreover have "spread_with zero_update ''__v'' (plus_one (get_prop stored_v3 ''__v'')) =
           [(''name'', JStr ''Bob''), (''__v'', JNum 4)]"
    by (simp add: spread_with_def zero_update_def stored_v3_def get_prop_def)
  ultimately show ?thesis by blast
qed

text \<open>
  C7, as stated, fails: the sum is the sum of doubles. For a document stored at version
  \<open>2^53\<close> the call returns and the version written is \<open>2^53\<close> again.
\<close>

theorem version_2_53_is_written_unchanged:
  "get_prop stored_2_53 ''__v'' = JNum 9007199254740992
   \<and> outcome (updateById (calm (Some stored_2_53)) False ''65f0'' plain_update) () =
       Inr (Some [(''name'', JStr ''Bob''), (''__v'', JNum 9007199254740992)])
   \<and> requests (calls (updateById (spy (calm (Some stored_2_53))) False ''65f0''
        plain_update) ()) =
       [StartSession, StartTransaction 0, FindByIdIn ''65f0'' 0,
        FindByIdAndUpdateIn ''65f0''
          [(''name'', JStr ''Bob''), (''__v'', JNum 9007199254740992)] 0,
        CommitTransaction 0, EndSession 0]"
  by (simp add: run_defs calm_def stored_2_53_def plain_update_def get_prop_def spread_with_def
      double_plus_one_def)

text \<open>
  C7 (amended). In a call of \<open>updateById\<close> that returns, the update written is the
  caller's with \<open>__v\<close> set to the value of \<open>existingDoc.__v + 1\<close> for the document read in
  the transaction, whatever \<open>__v\<close> the caller's update carries; it is exactly the stored
  \<open>__v\<close> plus 1 whenever the stored \<open>__v\<close> is an integer from \<open>-2^53\<close> up to
  \<open>2^53 - 1\<close>. It is the only write, followed by the commit and the end of the session.
\<close>

theorem written_version_is_stored_plus_one:
  assumes "m_startSession W s = (Inr sess, s1)"
    and "s_startTransaction W sess s1 = (Inr (), s2)"
    and "m_findById_session W docId sess s2 = (Inr (Some doc), s3)"
    and "outcome (updateById W lg docId update) s = Inr r"
  shows "requests (calls (updateById (spy W) lg docId update) s) =
           [StartSession, StartTransaction sess, FindByIdIn docId sess,
            FindByIdAndUpdateIn docId
              (spread_with update ''__v'' (plus_one (get_prop doc ''__v''))) sess,
            CommitTransaction sess, EndSession sess]
     \<and> get_prop (spread_with update ''__v'' (plus_one (get_prop doc ''__v''))) ''__v'' =
           plus_one (get_prop doc ''__v'')
     \<and> (get_prop doc ''__v'' = JNum n \<and> - 9007199254740992 \<le> n \<and> n < 9007199254740992 \<longrightarrow>
          get_prop (spread_with update ''__v'' (plus_one (get_prop doc ''__v''))) ''__v'' =
            JNum (n + 1))"
proof -
  let ?u = "spread_with update ''__v'' (plus_one (get_prop doc ''__v''))"
  from updateById_try_returns [OF assms(3) updateById_returns_try [OF assms(1,2,4)]]
  obtain s4 s5 where nc: "\<not> (truthy (get_prop update ''__v'')
            \<and> strict_neq (get_prop doc ''__v'') (get_prop update ''__v''))"
    and w: "m_findByIdAndUpdate_session W docId ?u sess s3 = (Inr r, s4)"
    and c: "s_commitTransaction W sess s4 = (Inr (), s5)"
    by blast
  have "requests (calls (updateById (spy W) lg docId update) s) =
           [StartSession, StartTransaction sess, FindByIdIn docId sess,
            FindByIdAndUpdateIn docId ?u sess, CommitTransaction sess, EndSession sess]"
    using assms(1-3) nc w c
    by (cases "truthy (get_prop update ''__v'')") (simp_all add: run_defs)
  then show ?thesis by simp
qed

text \<open>The amended C7 at an update that carries the current version 3 of the document: 4 is
  written.\<close>

theorem written_version_is_stored_plus_one_witness:
  "requests (calls (updateById (spy (calm (Some stored_v3))) False ''65f0''
      [(''__v'', JNum 3), (''name'', JStr ''Bob'')]) ()) =
           [StartSession, StartTransaction 0, FindByIdIn ''65f0'' 0,
            FindByIdAndUpdateIn ''65f0''
              (spread_with [(''__v'', JNum 3), (''name'', JStr ''Bob'')] ''__v''
                 (plus_one (get_prop stored_v3 ''__v''))) 0,
            CommitTransaction 0, EndSession 0]
     \<and> get_prop (spread_with [(''__v'', JNum 3), (''name'', JStr ''Bob'')] ''__v''
          (plus_one (get_prop stored_v3 ''__v''))) ''__v'' = JNum 4"
proof -
  have v: "get_prop stored_v3 ''__v'' = JNum 3"
    by (simp add: stored_v3_def get_prop_def)
  have "outcome (updateById (calm (Some stored_v3)) False ''65f0''
      [(''__v'', JNum 3), (''name'', JStr ''Bob'')]) () =
        Inr (Some [(''__v'', JNum 4), (''name'', JStr ''Bob'')])"
    by (simp add: run_defs calm_def stored_v3_def get_prop_def spread_with_def)
  from written_version_is_stored_plus_one
        [where W = "calm (Some stored_v3)" and s = "()" and sess = 0 and ?s1.0 = "()"
          and ?s2.0 = "()" and ?s3.0 = "()" and doc = stored_v3 and docId = "''65f0''"
          and lg = False and n = 3, OF _ _ _ this]
  show ?thesis by (simp add: calm_def v)
qed


subsection \<open>The exceptions \<open>findById\<close> and \<open>updateById\<close> make themselves\<close>

lemma findById_outcome:
  "outcome (findById W lg docId p) s =
     (case fst (m_findById W docId p s) of
        Inl e \<Rightarrow> Inl (translated (Raw e))
      | Inr None \<Rightarrow>
          Inl (translated (HttpException (''No data found with ID '' @ docId) NOT_FOUND))
      | Inr (Some d) \<Rightarrow> Inr d)"
proof -
  obtain r s' where a: "m_findById W docId p s = (r, s')" by (cases "m_findById W docId p s")
  show ?thesis
  proof (cases r)
    case (Inl e)
    with a show ?thesis by (simp add: outcome_def findById_def io_defs handle_object)
  next
    case (Inr found)
    with a show ?thesis
      by (cases found) (simp_all add: outcome_def findById_def io_defs handle_object)
  qed
qed

lemma updateById_outcome_cases:
  "(\<exists>e. outcome (updateById W lg docId update) s = Inl (Raw e))
   \<or> (\<exists>t. outcome (updateById W lg docId update) s = Inl (translated t))
   \<or> (\<exists>r. outcome (updateById W lg docId update) s = Inr r)"
proof -
  obtain r0 s1 where a: "m_startSession W s = (r0, s1)" by (cases "m_startSession W s")
  show ?thesis
  proof (cases r0)
    case (Inl e)
    with a show ?thesis by (simp add: outcome_def updateById_def io_defs)
  next
    case (Inr sess)
    obtain r1 s2 where b: "s_startTransaction W sess s1 = (r1, s2)"
      by (cases "s_startTransaction W sess s1")
    show ?thesis
    proof (cases r1)
      case (Inl e)
      with a \<open>r0 = Inr sess\<close> b show ?thesis by (simp add: outcome_def updateById_def io_defs)
    next
      case (Inr u)
      obtain rb sb where t: "updateById_try W docId update sess s2 = (rb, sb)"
        by (cases "updateById_try W docId update sess s2")
      from a \<open>r0 = Inr sess\<close> b Inr
      have run: "updateById W lg docId update s =
          io_try (updateById_try W docId update sess) (updateById_catch W lg sess) s2"
        by (simp add: updateById_started)
      show ?thesis
      proof (cases rb)
        case (Inr v)
        with t run show ?thesis by (simp add: outcome_def io_try_def)
      next
        case (Inl th)
        with t run have "outcome (updateById W lg docId update) s =
            outcome (updateById_catch W lg sess th) sb"
          by (simp add: outcome_def io_try_def)
        then show ?thesis
          by (cases "fst (s_abortTransaction W sess sb)")
            (auto simp add: updateById_catch_outcome)
      qed
    qed
  qed
qed


text \<open>
  C4 is contradicted by the code where the \<open>abortTransaction\<close> of the \<open>catch\<close> block of
  \<open>updateById\<close> throws: the \<open>NOT_FOUND\<close> exception made for a missing document, and the
  \<open>CONFLICT\<close> exception made for a stale update, are caught, but \<open>handleDatabaseError\<close>
  is never reached, and the caller gets the error of the abort as the driver threw it, not
  status \<open>INTERNAL_SERVER_ERROR\<close>.
\<close>

theorem internal_exception_lost_when_abort_throws:
  "updateById_try (abort_fails None) ''65f0'' plain_update 0 () =
     (Inl (HttpException ''No data found with ID 65f0'' NOT_FOUND), ())
   \<and> outcome (updateById (abort_fails None) False ''65f0'' plain_update) () =
       Inl (Raw network_error)
   \<and> updateById_try (abort_fails (Some stored_v3)) ''65f0'' stale_update 0 () =
     (Inl (HttpException ''Concurrency conflict'' CONFLICT), ())
   \<and> outcome (updateById (abort_fails (Some stored_v3)) False ''65f0'' stale_update) () =
       Inl (Raw network_error)
   \<and> calls (updateById (spy (abort_fails None)) False ''65f0'' plain_update) () =
       [(StartSession, True), (StartTransaction 0, True), (FindByIdIn ''65f0'' 0, True),
        (AbortTransaction 0, False)]"
  by (simp add: run_defs abort_fails_def calm_def stored_v3_def stale_update_def
      plain_update_def get_prop_def)

text \<open>
  What holds: in \<open>findById\<close> always, and in \<open>updateById\<close> once the \<open>abortTransaction\<close>
  of the \<open>catch\<close> block has returned, the exceptions the methods make themselves come out
  as status \<open>INTERNAL_SERVER_ERROR\<close> with the message \<open>Database operation failed\<close>; and
  whatever the driver does, neither method throws an \<open>HttpException\<close> of status
  \<open>NOT_FOUND\<close> or \<open>CONFLICT\<close>.
\<close>

lemma internal_exceptions_become_500:
  "(fst (m_findById W docId p s) = Inr None \<longrightarrow>
      outcome (findById W lg docId p) s =
        Inl (HttpException ''Database operation failed'' INTERNAL_SERVER_ERROR))
   \<and> (m_findById_session W docId sess s2 = (Inr None, s3) \<longrightarrow>
      updateById_try W docId update sess s2 =
        (Inl (HttpException (''No data found with ID '' @ docId) NOT_FOUND), s3))
   \<and> (m_findById_session W docId sess s2 = (Inr (Some doc), s3)
        \<and> truthy (get_prop update ''__v'')
        \<and> strict_neq (get_prop doc ''__v'') (get_prop update ''__v'') \<longrightarrow>
      updateById_try W docId update sess s2 =
        (Inl (HttpException ''Concurrency conflict'' CONFLICT), s3))
   \<and> (m_startSession W s = (Inr sess, s1) \<and> s_startTransaction W sess s1 = (Inr (), s2)
        \<and> updateById_try W docId update sess s2 = (Inl (HttpException m st), s3) \<longrightarrow>
      outcome (updateById W lg docId update) s =
        (case fst (s_abortTransaction W sess s3) of
           Inl e \<Rightarrow> Inl (Raw e)
         | Inr u \<Rightarrow> Inl (HttpException ''Database operation failed'' INTERNAL_SERVER_ERROR)))
   \<and> outcome (findById W lg docId p) s \<noteq> Inl (HttpException m' NOT_FOUND)
   \<and> outcome (findById W lg docId p) s \<noteq> Inl (HttpException m' CONFLICT)
   \<and> outcome (updateById W lg docId update) s \<noteq> Inl (HttpException m' NOT_FOUND)
   \<and> outcome (updateById W lg docId update) s \<noteq> Inl (HttpException m' CONFLICT)"
proof (intro conjI impI)
  assume "fst (m_findById W docId p s) = Inr None"
  then show "outcome (findById W lg docId p) s =
        Inl (HttpException ''Database operation failed'' INTERNAL_SERVER_ERROR)"
    by (simp add: findById_outcome translated_HttpException)
next
  assume "m_findById_session W docId sess s2 = (Inr None, s3)"
  then show "updateById_try W docId update sess s2 =
        (Inl (HttpException (''No data found with ID '' @ docId) NOT_FOUND), s3)"
    by (simp add: updateById_try_def io_defs)
next
  assume "m_findById_session W docId sess s2 = (Inr (Some doc), s3)
        \<and> truthy (get_prop update ''__v'')
        \<and> strict_neq (get_prop doc ''__v'') (get_prop update ''__v'')"
  then show "updateById_try W docId update sess s2 =
        (Inl (HttpException ''Concurrency conflict'' CONFLICT), s3)"
    by (simp add: updateById_try_def io_defs)
next
  assume h: "m_startSession W s = (Inr sess, s1) \<and> s_startTransaction W sess s1 = (Inr (), s2)
        \<and> updateById_try W docId update sess s2 = (Inl (HttpException m st), s3)"
  then have "outcome (updateById W lg docId update) s =
      outcome (updateById_catch W lg sess (HttpException m st)) s3"
    by (simp add: updateById_started outcome_def io_try_def)
  then show "outcome (updateById W lg docId update) s =
        (case fst (s_abortTransaction W sess s3) of
           Inl e \<Rightarrow> Inl (Raw e)
         | Inr u \<Rightarrow> Inl (HttpException ''Database operation failed'' INTERNAL_SERVER_ERROR))"
    by (simp add: updateById_catch_outcome translated_HttpException split: sum.splits)
next
  show "outcome (findById W lg docId p) s \<noteq> Inl (HttpException m' NOT_FOUND)"
    by (simp add: findById_outcome translated_not_404_409 split: sum.splits option.splits)
next
  show "outcome (findById W lg docId p) s \<noteq> Inl (HttpException m' CONFLICT)"
    by (simp add: findById_outcome translated_not_404_409 split: sum.splits option.splits)
next
  show "outcome (updateById W lg docId update) s \<noteq> Inl (HttpException m' NOT_FOUND)"
    using updateById_outcome_cases [of W lg docId update s]
    by (auto simp: translated_not_404_409)
next
  show "outcome (updateById W lg docId update) s \<noteq> Inl (HttpException m' CONFLICT)"
    using updateById_outcome_cases [of W lg docId update s]
    by (auto simp: translated_not_404_409)
qed

text \<open>The same at a missing document and at a stale update, in the calm world.\<close>

lemma internal_exceptions_at_calm_world:
  "outcome (findById (calm None) False ''65f0'' None) () =
     Inl (HttpException ''Database operation failed'' INTERNAL_SERVER_ERROR)
   \<and> updateById_try (calm None) ''65f0'' plain_update 0 () =
     (Inl (HttpException ''No data found with ID 65f0'' NOT_FOUND), ())
   \<and> outcome (updateById (calm None) False ''65f0'' plain_update) () =
     Inl (HttpException ''Database operation failed'' INTERNAL_SERVER_ERROR)
   \<and> updateById_try (calm (Some stored_v3)) ''65f0'' stale_update 0 () =
     (Inl (HttpException ''Concurrency conflict'' CONFLICT), ())
   \<and> outcome (updateById (calm (Some stored_v3)) False ''65f0'' stale_update) () =
     Inl (HttpException ''Database operation failed'' INTERNAL_SERVER_ERROR)"
  using internal_exceptions_become_500 [where W = "calm None" and docId = "''65f0''" and p = None and s = "()"
      and lg = False and sess = 0 and ?s1.0 = "()" and ?s2.0 = "()" and ?s3.0 = "()"
      and update = plain_update and doc = stored_v3
      and m = "''No data found with ID 65f0''" and st = NOT_FOUND and m' = "[]"]
    internal_exceptions_become_500 [where W = "calm (Some stored_v3)" and docId = "''65f0''" and p = None and s = "()"
      and lg = False and sess = 0 and ?s1.0 = "()" and ?s2.0 = "()" and ?s3.0 = "()"
      and update = stale_update and doc = stored_v3
      and m = "''Concurrency conflict''" and st = CONFLICT and m' = "[]"]
  by (simp add: calm_def updateById_try_def io_defs get_prop_def stored_v3_def
      stale_update_def plain_update_def)



subsection \<open>The session and the transaction of \<open>updateById\<close>\<close>

text \<open>
  C6 is contradicted by the code at a commit that fails followed by an abort that fails (the
  driver refuses to abort a transaction whose commit was attempted): the \<open>await\<close> of
  \<open>abortTransaction\<close> in the \<open>catch\<close> block throws, \<open>endSession\<close> and
  \<open>handleDatabaseError\<close> are never reached, and the caller gets the error of the abort as
  the driver threw it.
\<close>

theorem session_left_open_when_abort_throws:
  "calls (updateById (spy (commit_and_abort_fail (Some stored_v3))) False ''65f0''
      plain_update) () =
     [(StartSession, True), (StartTransaction 0, True), (FindByIdIn ''65f0'' 0, True),
      (FindByIdAndUpdateIn ''65f0'' [(''name'', JStr ''Bob''), (''__v'', JNum 4)] 0, True),
      (CommitTransaction 0, False), (AbortTransaction 0, False)]
   \<and> outcome (updateById (commit_and_abort_fail (Some stored_v3)) False ''65f0''
        plain_update) () = Inl (Raw transaction_error)
   \<and> ''endSession'' \<notin> set (map op_name (requests (calls
        (updateById (spy (commit_and_abort_fail (Some stored_v3))) False ''65f0''
           plain_update) ())))"
  by (simp add: run_defs commit_and_abort_fail_def calm_def stored_v3_def plain_update_def
      get_prop_def spread_with_def)

text \<open>The same when beginning the transaction throws: that call stands before the \<open>try\<close>.\<close>

lemma session_left_open_when_begin_throws:
  "calls (updateById (spy begin_fails) False ''65f0'' plain_update) () =
     [(StartSession, True), (StartTransaction 0, False)]
   \<and> outcome (updateById begin_fails False ''65f0'' plain_update) () =
       Inl (Raw transaction_error)"
  by (simp add: run_defs begin_fails_def calm_def)

text \<open>
  On every other path the session that was opened is ended once and the transaction is
  resolved once, by the commit that returned or by the abort that returned.
\<close>

lemma session_ended_when_cleanup_returns:
  assumes "(StartSession, True) \<in> set (calls (updateById (spy W) lg docId update) s)"
    and "\<forall>ss. (StartTransaction ss, False)
           \<notin> set (calls (updateById (spy W) lg docId update) s)"
    and "\<forall>ss. (AbortTransaction ss, False)
           \<notin> set (calls (updateById (spy W) lg docId update) s)"
  shows "length (filter (\<lambda>ev. op_name ev = ''endSession'')
           (requests (calls (updateById (spy W) lg docId update) s))) = 1
     \<and> length (filter (\<lambda>(ev, ok). ok \<and> (op_name ev = ''commitTransaction''
                                       \<or> op_name ev = ''abortTransaction''))
           (calls (updateById (spy W) lg docId update) s)) = 1"
  using assms updateById_has_shape [of docId update W lg s]
  unfolding updateById_shape_def try_body_def cleanup_tail_def requests_def
  by (auto split: if_splits)


subsection \<open>What the methods ask of the driver\<close>

lemma single_await: "single_shape ev (calls (await (recorded ev c)) s)"
proof -
  obtain r s' where a: "c s = (r, s')" by (cases "c s")
  then show ?thesis by (cases r) (simp_all add: calls_def io_defs single_shape_def)
qed

lemma single_try_bind:
  assumes "\<And>v x. snd (f v x) = x"
  shows "single_shape ev
           (calls (io_try (io_bind (await (recorded ev c)) f) (\<lambda>err. handleDatabaseError (spy W) lg (CaughtObject err))) s)"
proof -
  obtain r s' where a: "c s = (r, s')" by (cases "c s")
  show ?thesis
  proof (cases r)
    case (Inl e)
    with a show ?thesis
      by (simp add: calls_def io_defs handle_object single_shape_def)
  next
    case (Inr v)
    obtain res where b: "f v (s', [(ev, True)]) = (res, (s', [(ev, True)]))"
      using assms [of v "(s', [(ev, True)])"] by (cases "f v (s', [(ev, True)])") simp
    with a Inr show ?thesis
      by (cases res) (simp_all add: calls_def io_defs handle_object single_shape_def)
  qed
qed

lemma single_try:
  "single_shape ev (calls (io_try (await (recorded ev c)) (\<lambda>err. handleDatabaseError (spy W) lg (CaughtObject err))) s)"
proof -
  obtain r s' where a: "c s = (r, s')" by (cases "c s")
  then show ?thesis
    by (cases r) (simp_all add: calls_def io_defs handle_object single_shape_def)
qed

lemma single_shape_requests:
  "single_shape ev tr \<Longrightarrow> \<not> is_log ev \<Longrightarrow> requests tr = [ev]"
  by (auto simp: single_shape_def requests_def)

lemma single_shape_no_retry:
  "single_shape ev tr \<Longrightarrow> op_name ev \<noteq> ''logger.error'' \<Longrightarrow> no_retry tr"
  by (auto simp: single_shape_def no_retry_def at_most_once_def requests_def)

lemma single_shapes:
  "single_shape (Save x opts) (calls (create (spy W) lg x opts) s)"
  "single_shape (Create xs) (calls (createMany (spy W) lg xs) s)"
  "single_shape (Find q p (Some (or_zero sk)) (Some (or_zero li)))
     (calls (find_r (spy W) q p sk li) s)"
  "single_shape (FindById docId p) (calls (findById (spy W) lg docId p) s)"
  "single_shape (FindOne q p) (calls (findOne (spy W) q p) s)"
  "single_shape
     (Find [(searchField, JObj [(''$regex'', JStr searchText), (''$options'', JStr ''i'')])]
        None None None)
     (calls (fullTextSearch (spy W) lg searchText searchField) s)"
  "single_shape (CountDocuments q) (calls (count_r (spy W) lg q) s)"
  "single_shape (Distinct field qo) (calls (distinctValues (spy W) lg field qo) s)"
  "single_shape (UpdateOne q u) (calls (updateOne (spy W) lg q u) s)"
  "single_shape (UpdateMany q u) (calls (updateMany (spy W) lg q u) s)"
  "single_shape (FindOneAndUpdate q
       (if incVersion opt then spread_with u ''$inc'' (JObj [(versionKey opt, JNum 1)]) else u)
       (upsert opt)) (calls (findOneAndUpdate (spy W) lg q u opt) s)"
  "single_shape (DeleteOne q) (calls (deleteOne (spy W) lg q) s)"
  "single_shape (DeleteMany q) (calls (deleteMany (spy W) lg q) s)"
  "single_shape (Aggregate pl) (calls (aggregate (spy W) lg pl) s)"
               apply (simp add: create_def single_try)
              apply (simp add: createMany_def single_try)
             apply (simp add: find_r_def single_await)
            apply (simp add: findById_def)
            apply (rule single_try_bind)
            apply (simp add: io_defs split: option.splits)
           apply (simp add: findOne_def single_await)
          apply (simp add: fullTextSearch_def Let_def single_await)
         apply (simp add: count_r_def single_try)
        apply (simp add: distinctValues_def single_try)
       apply (simp add: updateOne_def)
       apply (rule single_try_bind)
       apply (simp add: io_defs)
      apply (simp add: updateMany_def)
      apply (rule single_try_bind)
      apply (simp add: io_defs)
     apply (simp only: findOneAndUpdate_def spy_sel single_try)
    apply (simp add: deleteOne_def)
    apply (rule single_try_bind)
    apply (simp add: io_defs)
   apply (simp add: deleteMany_def)
   apply (rule single_try_bind)
   apply (simp add: io_defs)
  apply (simp add: aggregate_def single_try)
  done

lemma updateById_shape_no_retry: "updateById_shape docId update tr \<Longrightarrow> no_retry tr"
  unfolding updateById_shape_def try_body_def cleanup_tail_def no_retry_def at_most_once_def
  by (auto simp: requests_def split: if_splits)

lemma updateById_shape_write:
  "updateById_shape docId update tr \<Longrightarrow>
     FindByIdAndUpdateIn i u' ss \<in> set (requests tr) \<Longrightarrow>
     i = docId \<and> (\<exists>v. u' = spread_with update ''__v'' v)"
  unfolding updateById_shape_def try_body_def cleanup_tail_def requests_def
  by (auto split: if_splits)

lemma updateById_shape_read:
  "updateById_shape docId update tr \<Longrightarrow> FindByIdIn i ss \<in> set (requests tr) \<Longrightarrow> i = docId"
  unfolding updateById_shape_def try_body_def cleanup_tail_def requests_def
  by (auto split: if_splits)

lemma startTransaction_no_retry: "no_retry (calls (startTransaction (spy W)) s)"
proof -
  obtain r0 s1 where a: "m_startSession W s = (r0, s1)" by (cases "m_startSession W s")
  show ?thesis
  proof (cases r0)
    case (Inl e)
    with a show ?thesis
      by (simp add: calls_def startTransaction_def io_defs no_retry_def at_most_once_def
          requests_def)
  next
    case (Inr sess)
    obtain r1 s2 where b: "s_startTransaction W sess s1 = (r1, s2)"
      by (cases "s_startTransaction W sess s1")
    with a Inr show ?thesis
      by (cases r1) (simp_all add: calls_def startTransaction_def io_defs no_retry_def
          at_most_once_def requests_def)
  qed
qed

lemma commitTransaction_no_retry: "no_retry (calls (commitTransaction (spy W) lg session) s)"
proof -
  obtain r0 s1 where a: "s_commitTransaction W session s = (r0, s1)"
    by (cases "s_commitTransaction W session s")
  obtain r1 s2 where b: "s_abortTransaction W session s1 = (r1, s2)"
    by (cases "s_abortTransaction W session s1")
  from a b show ?thesis
    by (cases r0; cases r1; cases lg)
      (simp_all add: calls_def commitTransaction_def io_defs handle_object
        no_retry_def at_most_once_def requests_def)
qed

lemma abortTransaction_no_retry: "no_retry (calls (abortTransaction (spy W) lg session) s)"
proof -
  obtain r0 s1 where a: "s_abortTransaction W session s = (r0, s1)"
    by (cases "s_abortTransaction W session s")
  then show ?thesis
    by (cases r0; cases lg)
      (simp_all add: calls_def abortTransaction_def io_defs handle_object
        no_retry_def at_most_once_def requests_def)
qed

lemma endTransaction_no_retry: "no_retry (calls (endTransaction (spy W) session) s)"
  by (simp add: calls_def endTransaction_def io_defs no_retry_def at_most_once_def requests_def)

lemma isDatabaseConnected_no_retry: "no_retry (calls (isDatabaseConnected (spy W)) s)"
  by (simp add: calls_def isDatabaseConnected_def no_retry_def at_most_once_def)


text \<open>
  C8 is contradicted by the code in \<open>findOneAndUpdate\<close> with \<open>incVersion\<close> set: the
  caller's update is spread and its \<open>$inc\<close> then overwritten, so a \<open>$inc\<close> of the caller's,
  which here increments the caller's own counter, does not reach the driver. With
  \<open>incVersion\<close> unset the same update reaches the driver as it is.
\<close>

theorem caller_inc_is_replaced:
  "get_prop counting_update ''$inc'' = JObj [(''visits'', JNum 1)]
   \<and> requests (calls (findOneAndUpdate (spy (calm None)) False [] counting_update
        inc_options) ()) =
       [FindOneAndUpdate []
          [(''$set'', JObj [(''name'', JStr ''Bob'')]), (''$inc'', JObj [(''__v'', JNum 1)])]
          False]
   \<and> requests (calls (findOneAndUpdate (spy (calm None)) False [] counting_update
        default_options) ()) =
       [FindOneAndUpdate [] counting_update False]"
  by (simp add: calls_def requests_def findOneAndUpdate_def io_defs calm_def
      counting_update_def inc_options_def default_options_def get_prop_def spread_with_def)

text \<open>
  What holds: every method hands the objects it is given to the driver as they are, in one
  request, but for the \<open>__v\<close> of the update in \<open>updateById\<close> and the \<open>$inc\<close> of the
  update in \<open>findOneAndUpdate\<close> with \<open>incVersion\<close> set; every other property of those two
  updates is unchanged.
\<close>

lemma arguments_forwarded:
  "requests (calls (create (spy W) lg x opts) s) = [Save x opts]
   \<and> requests (calls (createMany (spy W) lg xs) s) = [Create xs]
   \<and> requests (calls (find_r (spy W) q p sk li) s) =
       [Find q p (Some (or_zero sk)) (Some (or_zero li))]
   \<and> requests (calls (findById (spy W) lg docId p) s) = [FindById docId p]
   \<and> requests (calls (findOne (spy W) q p) s) = [FindOne q p]
   \<and> requests (calls (count_r (spy W) lg q) s) = [CountDocuments q]
   \<and> requests (calls (distinctValues (spy W) lg field qo) s) = [Distinct field qo]
   \<and> requests (calls (updateOne (spy W) lg q u) s) = [UpdateOne q u]
   \<and> requests (calls (updateMany (spy W) lg q u) s) = [UpdateMany q u]
   \<and> requests (calls (deleteOne (spy W) lg q) s) = [DeleteOne q]
   \<and> requests (calls (deleteMany (spy W) lg q) s) = [DeleteMany q]
   \<and> requests (calls (aggregate (spy W) lg pl) s) = [Aggregate pl]
   \<and> requests (calls (findOneAndUpdate (spy W) lg q u opt) s) =
       [FindOneAndUpdate q
          (if incVersion opt
           then spread_with u ''$inc'' (JObj [(versionKey opt, JNum 1)]) else u)
          (upsert opt)]
   \<and> (k \<noteq> ''$inc'' \<longrightarrow>
        get_prop (spread_with u ''$inc'' (JObj [(versionKey opt, JNum 1)])) k = get_prop u k)
   \<and> (FindByIdIn i ss \<in> set (requests (calls (updateById (spy W) lg docId update) s)) \<longrightarrow>
        i = docId)
   \<and> (FindByIdAndUpdateIn i u' ss
          \<in> set (requests (calls (updateById (spy W) lg docId update) s)) \<and> k \<noteq> ''__v'' \<longrightarrow>
        i = docId \<and> get_prop u' k = get_prop update k)"
proof -
  have w: "i = docId \<and> get_prop u' k = get_prop update k"
    if h: "FindByIdAndUpdateIn i u' ss
          \<in> set (requests (calls (updateById (spy W) lg docId update) s)) \<and> k \<noteq> ''__v''"
  proof -
    from h have mem: "FindByIdAndUpdateIn i u' ss
          \<in> set (requests (calls (updateById (spy W) lg docId update) s))"
      and k: "k \<noteq> ''__v''" by simp_all
    from updateById_shape_write [OF updateById_has_shape mem]
    obtain v where "i = docId" "u' = spread_with update ''__v'' v" by blast
    with k show ?thesis by simp
  qed
  have r: "i = docId"
    if "FindByIdIn i ss \<in> set (requests (calls (updateById (spy W) lg docId update) s))"
    using updateById_shape_read [OF updateById_has_shape that] .
  show ?thesis
    by (intro conjI impI single_shapes [THEN single_shape_requests] w r) simp_all
qed


text \<open>The same at the counting update with \<open>incVersion\<close> set, and at the write of
  \<open>updateById\<close> for the plain update of the document stored at version 3.\<close>

lemma arguments_forwarded_at_calm_world:
  "get_prop (spread_with counting_update ''$inc'' (JObj [(''__v'', JNum 1)])) ''$set'' =
     get_prop counting_update ''$set''
   \<and> requests (calls (findOneAndUpdate (spy (calm None)) False [] counting_update
        inc_options) ()) =
       [FindOneAndUpdate []
          (spread_with counting_update ''$inc'' (JObj [(''__v'', JNum 1)])) False]
   \<and> FindByIdIn ''65f0'' 0
        \<in> set (requests (calls (updateById (spy (calm (Some stored_v3))) False ''65f0''
              plain_update) ()))
   \<and> FindByIdAndUpdateIn ''65f0'' [(''name'', JStr ''Bob''), (''__v'', JNum 4)] 0
        \<in> set (requests (calls (updateById (spy (calm (Some stored_v3))) False ''65f0''
              plain_update) ()))
   \<and> get_prop [(''name'', JStr ''Bob''), (''__v'', JNum 4)] ''name'' =
       get_prop plain_update ''name''"
proof -
  have a: "get_prop (spread_with counting_update ''$inc'' (JObj [(''__v'', JNum 1)])) ''$set'' =
     get_prop counting_update ''$set''"
    using arguments_forwarded [where W = "calm (Some stored_v3)" and lg = False and s = "()"
        and q = "[]" and u = counting_update and opt = inc_options and k = "''$set''"]
    by (simp add: inc_options_def)
  have b: "requests (calls (findOneAndUpdate (spy (calm None)) False [] counting_update
      inc_options) ()) =
       [FindOneAndUpdate []
          (spread_with counting_update ''$inc'' (JObj [(''__v'', JNum 1)])) False]"
    using arguments_forwarded [where W = "calm None" and lg = False and s = "()" and q = "[]"
        and u = counting_update and opt = inc_options]
    by (simp add: inc_options_def)
  have r: "FindByIdIn ''65f0'' 0
      \<in> set (requests (calls (updateById (spy (calm (Some stored_v3))) False ''65f0''
            plain_update) ()))"
    by (simp add: run_defs calm_def stored_v3_def plain_update_def get_prop_def spread_with_def)
  have m: "FindByIdAndUpdateIn ''65f0'' [(''name'', JStr ''Bob''), (''__v'', JNum 4)] 0
      \<in> set (requests (calls (updateById (spy (calm (Some stored_v3))) False ''65f0''
            plain_update) ()))"
    by (simp add: run_defs calm_def stored_v3_def plain_update_def get_prop_def spread_with_def)
  have c: "get_prop [(''name'', JStr ''Bob''), (''__v'', JNum 4)] ''name'' =
      get_prop plain_update ''name''"
    using arguments_forwarded [where W = "calm (Some stored_v3)" and lg = False and s = "()"
        and docId = "''65f0''" and update = plain_update and i = "''65f0''"
        and u' = "[(''name'', JStr ''Bob''), (''__v'', JNum 4)]" and ss = 0
        and k = "''name''"] m
    by simp
  from a b r m c show ?thesis by blast
qed

text \<open>
  C10, as stated, fails: when the read of \<open>updateById\<close> throws, the method does more than
  translate the error; it first calls \<open>abortTransaction\<close> and \<open>endSession\<close>.
\<close>

theorem cleanup_calls_follow_failed_read:
  "calls (updateById (spy read_fails) False ''65f0'' plain_update) () =
     [(StartSession, True), (StartTransaction 0, True), (FindByIdIn ''65f0'' 0, False),
      (AbortTransaction 0, True), (EndSession 0, True)]
   \<and> after_failure (calls (updateById (spy read_fails) False ''65f0'' plain_update) ()) =
     [AbortTransaction 0, EndSession 0]"
  by (simp add: run_defs read_fails_def calm_def)


text \<open>
  C10 (amended). No method retries: in every run of every public method each operation of the
  driver is called at most once, and once a call of the driver has thrown, the only calls of
  the driver that follow are the cleanup calls \<open>abortTransaction\<close> and \<open>endSession\<close>
  (made by \<open>updateById\<close>, \<open>commitTransaction\<close> and \<open>abortTransaction\<close>).
\<close>

theorem no_method_retries:
  "no_retry (calls (create (spy W) lg x opts) s)
   \<and> no_retry (calls (createMany (spy W) lg xs) s)
   \<and> no_retry (calls (find_r (spy W) q p sk li) s)
   \<and> no_retry (calls (findById (spy W) lg docId p) s)
   \<and> no_retry (calls (findOne (spy W) q p) s)
   \<and> no_retry (calls (fullTextSearch (spy W) lg searchText searchField) s)
   \<and> no_retry (calls (count_r (spy W) lg q) s)
   \<and> no_retry (calls (distinctValues (spy W) lg field qo) s)
   \<and> no_retry (calls (updateOne (spy W) lg q u) s)
   \<and> no_retry (calls (updateMany (spy W) lg q u) s)
   \<and> no_retry (calls (findOneAndUpdate (spy W) lg q u opt) s)
   \<and> no_retry (calls (updateById (spy W) lg docId update) s)
   \<and> no_retry (calls (deleteOne (spy W) lg q) s)
   \<and> no_retry (calls (deleteMany (spy W) lg q) s)
   \<and> no_retry (calls (startTransaction (spy W)) s)
   \<and> no_retry (calls (commitTransaction (spy W) lg session) s)
   \<and> no_retry (calls (abortTransaction (spy W) lg session) s)
   \<and> no_retry (calls (endTransaction (spy W) session) s)
   \<and> no_retry (calls (aggregate (spy W) lg pl) s)
   \<and> no_retry (calls (isDatabaseConnected (spy W)) s)"
  by (intro conjI single_shapes [THEN single_shape_no_retry]
      updateById_shape_no_retry [OF updateById_has_shape] startTransaction_no_retry
      commitTransaction_no_retry abortTransaction_no_retry endTransaction_no_retry
      isDatabaseConnected_no_retry) simp_all



end
